theory Spec2Isabelle
  imports Complex_Main "HOL-Library.Signed_Division"
begin

section \<open>Weather station firmware: connection manager, configuration update, alert task\<close>

text \<open>
  A shallow embedding of the second translation unit of \<^verbatim>\<open>weather_station.c\<close>
  (the version with \<^verbatim>\<open>close_connection\<close>, \<^verbatim>\<open>tarefa_timeout\<close> and the revised
  \<^verbatim>\<open>POST /cfg\<close> logic).  Globals become fields of explicit state records, the results of
  calls into lwIP, FreeRTOS and libc become explicit arguments, and dereferencing a
  connection state that is not live is the value \<open>None\<close>.  Diagnostic \<^verbatim>\<open>printf\<close>
  output is modelled only for the alert task.
\<close>

subsection \<open>Constants\<close>

definition TCP_TIMEOUT_MS :: int where
  "TCP_TIMEOUT_MS = 10000"

definition TCP_CHUNK_SIZE :: nat where
  "TCP_CHUNK_SIZE = 512"

definition MAX_REQUEST_SIZE :: nat where
  "MAX_REQUEST_SIZE = 1024"

definition MAX_CONNECTIONS :: nat where
  "MAX_CONNECTIONS = 4"

text \<open>lwIP's \<^verbatim>\<open>err_t\<close> codes used by the firmware.\<close>

definition ERR_OK :: int where
  "ERR_OK = 0"

definition ERR_MEM :: int where
  "ERR_MEM = - 1"

definition ERR_VAL :: int where
  "ERR_VAL = - 6"

subsection \<open>Time\<close>

text \<open>
  The Pico SDK's \<^verbatim>\<open>absolute_time_diff_us(from, to)\<close> is \<open>to - from\<close> as a signed 64-bit
  number of microseconds and \<^verbatim>\<open>make_timeout_time_ms(ms)\<close> is the current time plus
  \<open>ms\<close> milliseconds; times are far from the 64-bit bounds, so they are integers here.
\<close>

definition absolute_time_diff_us :: "int \<Rightarrow> int \<Rightarrow> int" where
  "absolute_time_diff_us from to = to - from"

definition make_timeout_time_ms :: "int \<Rightarrow> int \<Rightarrow> int" where
  "make_timeout_time_ms now ms = now + ms * 1000"

subsection \<open>Connection pool, connection states and transport handles\<close>

text \<open>
  \<^verbatim>\<open>conn_state_t\<close>.  A pointer is an address (\<open>nat\<close>) or \<open>None\<close> for \<^verbatim>\<open>NULL\<close>;
  \<open>timeout\<close> is an \<^verbatim>\<open>absolute_time_t\<close> in microseconds since boot; \<open>remaining_data\<close> is
  the cursor into the response body, represented by the bytes from the cursor to the end
  of the body.
\<close>

record conn_state_t =
  pcb :: "nat option"
  timeout :: int
  response_sent :: bool
  remaining_data :: "string option"
  remaining_len :: nat

text \<open>
  The part of lwIP's \<^verbatim>\<open>struct tcp_pcb\<close> that the firmware sets: the callback argument
  (\<^verbatim>\<open>tcp_arg\<close>) and whether \<^verbatim>\<open>webserver_recv\<close>, \<^verbatim>\<open>webserver_sent\<close> and
  \<^verbatim>\<open>webserver_error\<close> are registered (\<^verbatim>\<open>tcp_recv\<close>, \<^verbatim>\<open>tcp_sent\<close>, \<^verbatim>\<open>tcp_err\<close>).
\<close>

record tcp_pcb =
  callback_arg :: "nat option"
  recv_cb :: bool
  sent_cb :: bool
  err_cb :: bool

text \<open>
  The connection manager's state: the array \<^verbatim>\<open>active_connections[MAX_CONNECTIONS]\<close>
  (indices below \<open>MAX_CONNECTIONS\<close> are the array), the heap of allocated
  \<^verbatim>\<open>conn_state_t\<close> blocks, the transport's open handles, and the data accepted by
  \<^verbatim>\<open>tcp_write\<close> so far, per handle and in order.
\<close>

record world =
  active_connections :: "nat \<Rightarrow> nat option"
  heap :: "nat \<Rightarrow> conn_state_t option"
  pcbs :: "nat \<Rightarrow> tcp_pcb option"
  wire :: "(nat \<times> string) list"

text \<open>The loop \<^verbatim>\<open>for (i = 0; i < MAX_CONNECTIONS; i++)\<close> with \<^verbatim>\<open>break\<close> on the first match.\<close>

fun release_slot :: "nat \<Rightarrow> nat list \<Rightarrow> (nat \<Rightarrow> nat option) \<Rightarrow> (nat \<Rightarrow> nat option)" where
  "release_slot s [] pool = pool"
| "release_slot s (i # js) pool =
     (if pool i = Some s then pool(i := None) else release_slot s js pool)"

definition slot_indices :: "nat list" where
  "slot_indices = [0, 1, 2, 3]"

text \<open>
  \<^verbatim>\<open>tcp_arg(pcb, NULL); tcp_recv(pcb, NULL); tcp_sent(pcb, NULL); tcp_err(pcb, NULL)\<close>.
\<close>

definition tcp_clear_callbacks :: "nat \<Rightarrow> (nat \<Rightarrow> tcp_pcb option) \<Rightarrow> (nat \<Rightarrow> tcp_pcb option)" where
  "tcp_clear_callbacks p ps =
     (case ps p of
        None \<Rightarrow> ps
      | Some b \<Rightarrow> ps(p := Some (b\<lparr>callback_arg := None, recv_cb := False,
                                  sent_cb := False, err_cb := False\<rparr>)))"

text \<open>
  \<^verbatim>\<open>tcp_close(pcb)\<close> with result \<open>cerr\<close>: on \<open>ERR_OK\<close> lwIP has released the handle,
  otherwise the handle stays open.
\<close>

definition tcp_close :: "int \<Rightarrow> nat \<Rightarrow> (nat \<Rightarrow> tcp_pcb option) \<Rightarrow> (nat \<Rightarrow> tcp_pcb option)" where
  "tcp_close cerr p ps = (if cerr = ERR_OK then ps(p := None) else ps)"

text \<open>
  \<^verbatim>\<open>close_connection(state)\<close>.  \<open>None\<close>: the call reads \<^verbatim>\<open>state->pcb\<close> of a block that
  is not allocated (the behaviour of the C program is undefined there).
\<close>

definition close_connection :: "int \<Rightarrow> nat option \<Rightarrow> world \<Rightarrow> world option" where
  "close_connection cerr state w =
     (case state of
        None \<Rightarrow> Some w
      | Some s \<Rightarrow>
          (case heap w s of
             None \<Rightarrow> None
           | Some cs \<Rightarrow>
               (case pcb cs of
                  None \<Rightarrow> Some w
                | Some p \<Rightarrow>
                    Some (w\<lparr>active_connections := release_slot s slot_indices (active_connections w),
                            pcbs := tcp_close cerr p (tcp_clear_callbacks p (pcbs w)),
                            heap := (heap w)(s := None)\<rparr>))))"

subsection \<open>Sending a response in chunks\<close>

text \<open>
  The results of the lwIP calls made while one callback runs: the \<^verbatim>\<open>tcp_write\<close> of the
  header, the \<^verbatim>\<open>tcp_write\<close> of a body chunk, \<^verbatim>\<open>tcp_output\<close>, and the \<^verbatim>\<open>tcp_close\<close>
  inside \<^verbatim>\<open>close_connection\<close>.
\<close>

record tcp_errs =
  e_header :: int
  e_chunk :: int
  e_output :: int
  e_close :: int

definition all_ok :: tcp_errs where
  "all_ok = \<lparr>e_header = ERR_OK, e_chunk = ERR_OK, e_output = ERR_OK, e_close = ERR_OK\<rparr>"

text \<open>A \<^verbatim>\<open>tcp_write\<close> that returned \<open>ERR_OK\<close> has handed the bytes to the transport.\<close>

definition tcp_write :: "nat \<Rightarrow> string \<Rightarrow> world \<Rightarrow> world" where
  "tcp_write tpcb bytes w = w\<lparr>wire := wire w @ [(tpcb, bytes)]\<rparr>"

definition set_state :: "nat \<Rightarrow> conn_state_t \<Rightarrow> world \<Rightarrow> world" where
  "set_state s cs w = w\<lparr>heap := (heap w)(s := Some cs)\<rparr>"

text \<open>The end of \<^verbatim>\<open>send_http_response\<close>: \<^verbatim>\<open>tcp_output\<close> and \<^verbatim>\<open>response_sent = true\<close>.\<close>

definition send_output :: "tcp_errs \<Rightarrow> nat \<Rightarrow> conn_state_t \<Rightarrow> world \<Rightarrow> world option" where
  "send_output e s cs w =
     (if e_output e \<noteq> ERR_OK then close_connection (e_close e) (Some s) (set_state s cs w)
      else Some (set_state s (cs\<lparr>response_sent := True\<rparr>) w))"

text \<open>
  \<^verbatim>\<open>send_http_response(tpcb, header, body, state)\<close>.  \<open>None\<close>: a field of a state that
  is \<^verbatim>\<open>NULL\<close> or not allocated is accessed.
\<close>

definition send_http_response ::
  "tcp_errs \<Rightarrow> nat \<Rightarrow> string \<Rightarrow> string option \<Rightarrow> nat option \<Rightarrow> world \<Rightarrow> world option" where
  "send_http_response e tpcb header body state w =
     (if e_header e \<noteq> ERR_OK then close_connection (e_close e) state w
      else
        (let w1 = tcp_write tpcb header w in
         case state of
           None \<Rightarrow> None
         | Some s \<Rightarrow>
             (case heap w1 s of
                None \<Rightarrow> None
              | Some cs \<Rightarrow>
                  (case (case body of None \<Rightarrow> None | Some b \<Rightarrow> if b = [] then None else Some b) of
                     Some b \<Rightarrow>
                       (let cs1 = cs\<lparr>remaining_data := Some b, remaining_len := length b\<rparr>;
                            to_send = (if remaining_len cs1 > TCP_CHUNK_SIZE then TCP_CHUNK_SIZE
                                       else remaining_len cs1)
                        in if e_chunk e \<noteq> ERR_OK
                           then close_connection (e_close e) state (set_state s cs1 w1)
                           else send_output e s
                                  (cs1\<lparr>remaining_data := Some (drop to_send b),
                                       remaining_len := remaining_len cs1 - to_send\<rparr>)
                                  (tcp_write tpcb (take to_send b) w1))
                   | None \<Rightarrow>
                       send_output e s (cs\<lparr>remaining_data := None, remaining_len := 0\<rparr>) w1))))"

text \<open>\<^verbatim>\<open>webserver_sent(arg, tpcb, len)\<close>, the send-complete callback.\<close>

definition webserver_sent :: "tcp_errs \<Rightarrow> nat option \<Rightarrow> nat \<Rightarrow> world \<Rightarrow> world option" where
  "webserver_sent e arg tpcb w =
     (case arg of
        None \<Rightarrow> Some w
      | Some s \<Rightarrow>
          (case heap w s of
             None \<Rightarrow> None
           | Some cs \<Rightarrow>
               if remaining_len cs > 0 then
                 (case remaining_data cs of
                    None \<Rightarrow> None
                  | Some r \<Rightarrow>
                      (let to_send = (if remaining_len cs > TCP_CHUNK_SIZE then TCP_CHUNK_SIZE
                                      else remaining_len cs)
                       in if e_chunk e \<noteq> ERR_OK then close_connection (e_close e) (Some s) w
                          else
                            (let cs1 = cs\<lparr>remaining_data := Some (drop to_send r),
                                          remaining_len := remaining_len cs - to_send\<rparr>;
                                 w1 = set_state s cs1 (tcp_write tpcb (take to_send r) w)
                             in if e_output e \<noteq> ERR_OK then close_connection (e_close e) (Some s) w1
                                else Some w1)))
               else close_connection (e_close e) (Some s) w))"

text \<open>
  lwIP delivers a send-complete notification for handle \<open>p\<close> to the registered callback
  with the registered argument; a released handle, or one without callback, delivers
  nothing.  \<open>sent_events\<close> delivers one notification per element of the list.
\<close>

definition lwip_sent :: "tcp_errs \<Rightarrow> nat \<Rightarrow> world \<Rightarrow> world option" where
  "lwip_sent e p w =
     (case pcbs w p of
        None \<Rightarrow> Some w
      | Some b \<Rightarrow> if sent_cb b then webserver_sent e (callback_arg b) p w else Some w)"

fun sent_events :: "tcp_errs list \<Rightarrow> nat \<Rightarrow> world \<Rightarrow> world option" where
  "sent_events [] p w = Some w"
| "sent_events (e # es) p w =
     (case lwip_sent e p w of None \<Rightarrow> None | Some w' \<Rightarrow> sent_events es p w')"

subsection \<open>Accepting a connection\<close>

fun find_free_slot :: "nat list \<Rightarrow> (nat \<Rightarrow> nat option) \<Rightarrow> nat option" where
  "find_free_slot [] pool = None"
| "find_free_slot (i # js) pool = (if pool i = None then Some i else find_free_slot js pool)"

text \<open>
  \<^verbatim>\<open>webserver_accept(arg, newpcb, err)\<close> at time \<open>now\<close>.  \<open>alloc\<close> is the result of
  \<^verbatim>\<open>calloc(1, sizeof(conn_state_t))\<close> (the address of a zeroed block, or \<open>None\<close>) and
  \<open>cerr\<close> the result of \<^verbatim>\<open>tcp_close(newpcb)\<close> on the two refusal paths.
\<close>

definition webserver_accept ::
  "int \<Rightarrow> nat option \<Rightarrow> nat option \<Rightarrow> int \<Rightarrow> int \<Rightarrow> world \<Rightarrow> int \<times> world" where
  "webserver_accept err newpcb alloc now cerr w =
     (case (if err \<noteq> ERR_OK then None else newpcb) of
        None \<Rightarrow> (ERR_VAL, w)
      | Some p \<Rightarrow>
          (case find_free_slot slot_indices (active_connections w) of
             None \<Rightarrow> (ERR_MEM, w\<lparr>pcbs := tcp_close cerr p (pcbs w)\<rparr>)
           | Some free_slot \<Rightarrow>
               (case alloc of
                  None \<Rightarrow> (ERR_MEM, w\<lparr>pcbs := tcp_close cerr p (pcbs w)\<rparr>)
                | Some state \<Rightarrow>
                    (ERR_OK,
                     w\<lparr>heap := (heap w)(state := Some
                            \<lparr>pcb = Some p, timeout = make_timeout_time_ms now TCP_TIMEOUT_MS,
                             response_sent = False, remaining_data = None, remaining_len = 0\<rparr>),
                       active_connections := (active_connections w)(free_slot := Some state),
                       pcbs := (pcbs w)(p := Some \<lparr>callback_arg = Some state, recv_cb = True,
                                                  sent_cb = True, err_cb = True\<rparr>)\<rparr>))))"

subsection \<open>Idle sweep\<close>

text \<open>
  The test of \<^verbatim>\<open>tarefa_timeout\<close>:
  \<^verbatim>\<open>absolute_time_diff_us(get_absolute_time(), c->timeout) / 1000 > TCP_TIMEOUT_MS\<close>,
  with C's division truncating towards zero.
\<close>

definition timeout_test :: "int \<Rightarrow> int \<Rightarrow> bool" where
  "timeout_test now deadline = (absolute_time_diff_us now deadline sdiv 1000 > TCP_TIMEOUT_MS)"

text \<open>
  The body of the \<^verbatim>\<open>for\<close> loop of \<^verbatim>\<open>tarefa_timeout\<close> for slot \<open>i\<close>; \<open>cerr i\<close> is the
  result of the \<^verbatim>\<open>tcp_close\<close> issued for that slot.
\<close>

definition timeout_slot :: "int \<Rightarrow> (nat \<Rightarrow> int) \<Rightarrow> nat \<Rightarrow> world \<Rightarrow> world option" where
  "timeout_slot now cerr i w =
     (case active_connections w i of
        None \<Rightarrow> Some w
      | Some s \<Rightarrow>
          (case heap w s of
             None \<Rightarrow> None
           | Some cs \<Rightarrow>
               if timeout_test now (timeout cs)
               then (case close_connection (cerr i) (Some s) w of
                       None \<Rightarrow> None
                     | Some w' \<Rightarrow> Some (w'\<lparr>active_connections := (active_connections w')(i := None)\<rparr>))
               else Some w))"

fun for_slots :: "(nat \<Rightarrow> world \<Rightarrow> world option) \<Rightarrow> nat list \<Rightarrow> world \<Rightarrow> world option" where
  "for_slots body [] w = Some w"
| "for_slots body (i # js) w =
     (case body i w of None \<Rightarrow> None | Some w' \<Rightarrow> for_slots body js w')"

text \<open>One wake-up of \<^verbatim>\<open>tarefa_timeout\<close>: the scan of the pool at time \<open>now\<close>.\<close>

definition tarefa_timeout :: "int \<Rightarrow> (nat \<Rightarrow> int) \<Rightarrow> world \<Rightarrow> world option" where
  "tarefa_timeout now cerr w = for_slots (timeout_slot now cerr) slot_indices w"

subsection \<open>C strings and libc\<close>

text \<open>
  A C string is the list of its bytes before the terminating NUL.  \<^verbatim>\<open>strstr\<close> returns
  the suffix that starts at the first occurrence of the needle, \<open>None\<close> for \<^verbatim>\<open>NULL\<close>.
\<close>

definition CRLF :: string where
  "CRLF = [CHR 0x0D, CHR 0x0A]"

fun strstr :: "string \<Rightarrow> string \<Rightarrow> string option" where
  "strstr [] needle = (if needle = [] then Some [] else None)"
| "strstr (c # cs) needle =
     (if take (length needle) (c # cs) = needle then Some (c # cs) else strstr cs needle)"

text \<open>
  \<^verbatim>\<open>snprintf(buf, n, ...)\<close> stores at most \<open>n - 1\<close> bytes of the formatted text;
  \<^verbatim>\<open>strncat(dst, src, sizeof(dst) - strlen(dst) - 1)\<close> appends what still fits.
\<close>

definition snprintf :: "nat \<Rightarrow> string \<Rightarrow> string" where
  "snprintf n s = take (n - 1) s"

definition strncat :: "nat \<Rightarrow> string \<Rightarrow> string \<Rightarrow> string" where
  "strncat n dst src = dst @ take (n - length dst - 1) src"

text \<open>The conversion \<^verbatim>\<open>%zu\<close>.\<close>

fun fmt_zu :: "nat \<Rightarrow> string" where
  "fmt_zu n =
     (if n < 10 then [''0123456789'' ! n]
      else fmt_zu (n div 10) @ [''0123456789'' ! (n mod 10)])"

declare fmt_zu.simps [simp del]

text \<open>
  \<^verbatim>\<open>strtok(s, delim)\<close> with its hidden static pointer made explicit: \<open>saved\<close> is the C
  string at that pointer (empty when the previous scan reached the end of its string).
  The result is the token (\<open>None\<close> for \<^verbatim>\<open>NULL\<close>) and the new saved string.  A token
  ends at the first delimiter, which is overwritten by NUL, or at the end of the string.
\<close>

definition strtok :: "string option \<Rightarrow> string \<Rightarrow> string \<Rightarrow> string option \<times> string" where
  "strtok s delim saved =
     (let start = dropWhile (\<lambda>c. c \<in> set delim) (case s of None \<Rightarrow> saved | Some x \<Rightarrow> x)
      in if start = [] then (None, [])
         else (Some (takeWhile (\<lambda>c. c \<notin> set delim) start),
               drop 1 (dropWhile (\<lambda>c. c \<notin> set delim) start)))"

subsection \<open>Floating-point values\<close>

text \<open>
  A C \<^verbatim>\<open>float\<close>: a finite value, an infinity or a NaN.  Only comparisons are modelled;
  on finite values they are the comparisons of the reals, and every comparison with a
  NaN is false.
\<close>

datatype cfloat = Fin real | PInf | NInf | NaN

fun flt :: "cfloat \<Rightarrow> cfloat \<Rightarrow> bool" where
  "flt (Fin x) (Fin y) = (x < y)"
| "flt (Fin x) PInf = True"
| "flt NInf (Fin y) = True"
| "flt NInf PInf = True"
| "flt _ _ = False"

fun fle :: "cfloat \<Rightarrow> cfloat \<Rightarrow> bool" where
  "fle (Fin x) (Fin y) = (x \<le> y)"
| "fle (Fin x) PInf = True"
| "fle NInf (Fin y) = True"
| "fle NInf PInf = True"
| "fle NInf NInf = True"
| "fle PInf PInf = True"
| "fle _ _ = False"

definition fgt :: "cfloat \<Rightarrow> cfloat \<Rightarrow> bool" where
  "fgt a b = flt b a"

definition fge :: "cfloat \<Rightarrow> cfloat \<Rightarrow> bool" where
  "fge a b = fle b a"

text \<open>
  The two libc conversions of floats: \<^verbatim>\<open>printf\<close>'s \<^verbatim>\<open>%.1f\<close> and
  \<^verbatim>\<open>sscanf(value, "%f", &val)\<close> (\<open>None\<close> when no conversion was made).
\<close>

record libc =
  fmt_f1 :: "cfloat \<Rightarrow> string"
  sscanf_f :: "string \<Rightarrow> cfloat option"

subsection \<open>Shared state\<close>

record sensor_data_t =
  temp_aht20 :: cfloat
  hum_aht20 :: cfloat
  press_bmp280 :: cfloat

record config_limits_t =
  temp_min :: cfloat
  temp_max :: cfloat
  hum_min :: cfloat
  hum_max :: cfloat
  press_min :: cfloat
  press_max :: cfloat
  temp_offset :: cfloat
  hum_offset :: cfloat
  press_offset :: cfloat

subsection \<open>Configuration update (\<^verbatim>\<open>POST /cfg\<close>)\<close>

text \<open>
  The \<^verbatim>\<open>if\<close>/\<^verbatim>\<open>else if\<close> chain on \<^verbatim>\<open>key\<close> for a value that \<^verbatim>\<open>sscanf\<close> converted.
  The result is the configuration, the flag \<^verbatim>\<open>valid\<close> and the buffer
  \<^verbatim>\<open>field_name[32]\<close>.
\<close>

definition cfg_field ::
  "(cfloat \<Rightarrow> string) \<Rightarrow> config_limits_t \<Rightarrow> string \<Rightarrow> cfloat \<Rightarrow> config_limits_t \<times> bool \<times> string" where
  "cfg_field fmt c key val =
     (if key = ''temp_min'' then
        (if fge val (Fin (- 50)) \<and> fle val (Fin 50) then
           (if flt val (temp_max c) then (c\<lparr>temp_min := val\<rparr>, True, snprintf 32 key)
            else (c, False, snprintf 32 (key @ '' >= temp_max ('' @ fmt (temp_max c) @ '')'')))
         else (c, False, snprintf 32 key))
      else if key = ''temp_max'' then
        (if fge val (Fin (- 50)) \<and> fle val (Fin 50) then
           (if fgt val (temp_min c) then (c\<lparr>temp_max := val\<rparr>, True, snprintf 32 key)
            else (c, False, snprintf 32 (key @ '' <= temp_min ('' @ fmt (temp_min c) @ '')'')))
         else (c, False, snprintf 32 key))
      else if key = ''hum_min'' then
        (if fge val (Fin 0) \<and> fle val (Fin 100) then
           (if flt val (hum_max c) then (c\<lparr>hum_min := val\<rparr>, True, snprintf 32 key)
            else (c, False, snprintf 32 (key @ '' >= hum_max ('' @ fmt (hum_max c) @ '')'')))
         else (c, False, snprintf 32 key))
      else if key = ''hum_max'' then
        (if fge val (Fin 0) \<and> fle val (Fin 100) then
           (if fgt val (hum_min c) then (c\<lparr>hum_max := val\<rparr>, True, snprintf 32 key)
            else (c, False, snprintf 32 (key @ '' <= hum_min ('' @ fmt (hum_min c) @ '')'')))
         else (c, False, snprintf 32 key))
      else if key = ''press_min'' then
        (if fge val (Fin 300) \<and> fle val (Fin 1100) then
           (if flt val (press_max c) then (c\<lparr>press_min := val\<rparr>, True, snprintf 32 key)
            else (c, False, snprintf 32 (key @ '' >= press_max ('' @ fmt (press_max c) @ '')'')))
         else (c, False, snprintf 32 key))
      else if key = ''press_max'' then
        (if fge val (Fin 300) \<and> fle val (Fin 1100) then
           (if fgt val (press_min c) then (c\<lparr>press_max := val\<rparr>, True, snprintf 32 key)
            else (c, False, snprintf 32 (key @ '' <= press_min ('' @ fmt (press_min c) @ '')'')))
         else (c, False, snprintf 32 key))
      else if key = ''temp_offset'' then
        (if fge val (Fin (- 10)) \<and> fle val (Fin 10) then (c\<lparr>temp_offset := val\<rparr>, True, snprintf 32 key)
         else (c, False, snprintf 32 key))
      else if key = ''hum_offset'' then
        (if fge val (Fin (- 10)) \<and> fle val (Fin 10) then (c\<lparr>hum_offset := val\<rparr>, True, snprintf 32 key)
         else (c, False, snprintf 32 key))
      else if key = ''press_offset'' then
        (if fge val (Fin (- 50)) \<and> fle val (Fin 50) then (c\<lparr>press_offset := val\<rparr>, True, snprintf 32 key)
         else (c, False, snprintf 32 key))
      else (c, False, snprintf 32 (key @ '' (desconhecido)'')))"

text \<open>
  The variables the pair loop works on: the global \<^verbatim>\<open>config\<close> and the locals
  \<^verbatim>\<open>updated\<close>, \<^verbatim>\<open>updates[256]\<close>, \<^verbatim>\<open>errors[256]\<close>, \<^verbatim>\<open>first_update\<close>, \<^verbatim>\<open>first_error\<close>.
\<close>

record cfg_locals =
  config :: config_limits_t
  updated :: bool
  updates :: string
  errors :: string
  first_update :: bool
  first_error :: bool

definition add_error :: "cfg_locals \<Rightarrow> string \<Rightarrow> cfg_locals" where
  "add_error st err_buf =
     st\<lparr>errors := strncat 256 (if first_error st then errors st else strncat 256 (errors st) '','') err_buf,
        first_error := False\<rparr>"

definition add_update :: "cfg_locals \<Rightarrow> string \<Rightarrow> cfg_locals" where
  "add_update st upd_buf =
     st\<lparr>updated := True,
        updates := strncat 256 (if first_update st then updates st else strncat 256 (updates st) '','') upd_buf,
        first_update := False\<rparr>"

text \<open>The byte sequences of the non-ASCII letters in the firmware's messages (UTF-8).\<close>

definition a_acute :: string where
  "a_acute = [CHR 0xC3, CHR 0xA1]"

definition a_circ :: string where
  "a_circ = [CHR 0xC3, CHR 0xA2]"

definition c_cedil_a_tilde :: string where
  "c_cedil_a_tilde = [CHR 0xC3, CHR 0xA7, CHR 0xC3, CHR 0xA3]"

text \<open>
  One iteration of \<^verbatim>\<open>while (pair)\<close>.  The two inner \<^verbatim>\<open>strtok\<close> calls restart the scan
  inside \<open>pair\<close>, so the \<^verbatim>\<open>strtok(NULL, "&")\<close> that fetches the next pair continues
  from where the scan for \<^verbatim>\<open>value\<close> stopped.  The result is the new variables, the next
  \<open>pair\<close> and \<^verbatim>\<open>strtok\<close>'s saved string.
\<close>

definition cfg_pair :: "libc \<Rightarrow> string \<Rightarrow> string \<Rightarrow> cfg_locals \<Rightarrow> cfg_locals \<times> string option \<times> string" where
  \<open>cfg_pair lc pair saved st =
     (case strtok (Some pair) ''='' saved of (key, saved1) \<Rightarrow>
      case strtok None ''='' saved1 of (value, saved2) \<Rightarrow>
      let next = strtok None ''&'' saved2 in
      case key of
        None \<Rightarrow> (st, next)
      | Some k \<Rightarrow>
          (case value of
             None \<Rightarrow> (st, next)
           | Some v \<Rightarrow>
               if v = [] then (st, next)
               else
                 (case sscanf_f lc v of
                    None \<Rightarrow>
                      (add_error st
                         (snprintf 64 (''{"field":"'' @ k @ ''","error":"Valor inv'' @ a_acute
                                       @ ''lido: '' @ v @ ''"}'')),
                       next)
                  | Some val \<Rightarrow>
                      (case cfg_field (fmt_f1 lc) (config st) k val of (c, valid, field_name) \<Rightarrow>
                         if \<not> valid then
                           (add_error (st\<lparr>config := c\<rparr>)
                              (snprintf 64 (''{"field":"'' @ field_name
                                            @ ''","error":"Valor fora do intervalo: ''
                                            @ fmt_f1 lc val @ ''"}'')),
                            next)
                         else
                           (add_update (st\<lparr>config := c\<rparr>)
                              (snprintf 64 (''{"field":"'' @ k @ ''","value":'' @ fmt_f1 lc val @ ''}'')),
                            next)))))\<close>

text \<open>
  The loop \<^verbatim>\<open>while (pair) { ... pair = strtok(NULL, "&"); }\<close>.  It terminates because the
  next pair is scanned from what the two inner calls left of the current one, so it is
  shorter.
\<close>

function cfg_loop :: "libc \<Rightarrow> string option \<Rightarrow> string \<Rightarrow> cfg_locals \<Rightarrow> cfg_locals" where
  "cfg_loop lc pair saved st =
     (case pair of
        None \<Rightarrow> st
      | Some p \<Rightarrow>
          (case cfg_pair lc p saved st of (st', pair', saved') \<Rightarrow> cfg_loop lc pair' saved' st'))"
  by pat_completeness auto
termination
proof (relation "measure (\<lambda>(lc, pair, saved, st). case pair of None \<Rightarrow> 0 | Some p \<Rightarrow> Suc (length p))",
    goal_cases)
  case 1
  show ?case by simp
next
  case (2 lc pair saved st p st' y pair' saved')
  then have eq: "cfg_pair lc p saved st = (st', pair', saved')" by simp
  define s1 where "s1 = snd (strtok (Some p) ''='' saved)"
  define s2 where "s2 = snd (strtok None ''='' s1)"
  have rest: "length (snd (strtok None d sv)) \<le> length sv" for d sv :: string
  proof -
    define start where "start = dropWhile (\<lambda>c. c \<in> set d) sv"
    define after where "after = dropWhile (\<lambda>c. c \<notin> set d) start"
    have a: "length after \<le> length start" unfolding after_def by (rule length_dropWhile_le)
    have b: "length start \<le> length sv" unfolding start_def by (rule length_dropWhile_le)
    have c: "length (drop 1 after) \<le> length sv" using a b by simp
    have "snd (strtok None d sv) = (if start = [] then [] else drop 1 after)"
      by (simp add: strtok_def Let_def start_def after_def)
    then show ?thesis using c by simp
  qed
  have token: "length t \<le> length sv" if "fst (strtok None d sv) = Some t" for d sv t :: string
  proof -
    define start where "start = dropWhile (\<lambda>c. c \<in> set d) sv"
    have a: "length (takeWhile (\<lambda>c. c \<notin> set d) start) \<le> length start"
      by (rule length_takeWhile_le)
    have b: "length start \<le> length sv" unfolding start_def by (rule length_dropWhile_le)
    have "fst (strtok None d sv) =
            (if start = [] then None else Some (takeWhile (\<lambda>c. c \<notin> set d) start))"
      by (simp add: strtok_def Let_def start_def)
    with that have "t = takeWhile (\<lambda>c. c \<notin> set d) start" by (simp split: if_splits)
    then show ?thesis using a b by simp
  qed
  have first: "length s1 < length p" if "p \<noteq> []"
  proof -
    define start where "start = dropWhile (\<lambda>c. c \<in> set ''='') p"
    define after where "after = dropWhile (\<lambda>c. c \<notin> set ''='') start"
    have a: "length after \<le> length start" unfolding after_def by (rule length_dropWhile_le)
    have b: "length start \<le> length p" unfolding start_def by (rule length_dropWhile_le)
    have c: "length (drop 1 after) < length p"
    proof (cases after)
      case Nil
      then show ?thesis using that by simp
    next
      case (Cons x xs)
      then show ?thesis using a b by simp
    qed
    have "s1 = (if start = [] then [] else drop 1 after)"
      by (simp add: s1_def strtok_def Let_def start_def after_def)
    then show ?thesis using that c by simp
  qed
  have nxt: "snd (cfg_pair lc p saved st) = strtok None ''&'' s2"
    by (simp add: cfg_pair_def Let_def s1_def s2_def split: prod.splits option.splits)
  show ?case
  proof (cases pair')
    case None
    then show ?thesis using 2 by simp
  next
    case (Some q)
    from eq Some have "snd (cfg_pair lc p saved st) = (Some q, saved')" by simp
    then have "strtok None ''&'' s2 = (Some q, saved')" by (simp only: nxt)
    then have n: "fst (strtok None ''&'' s2) = Some q" by simp
    then have l1: "length q \<le> length s2" by (rule token)
    have l2: "length s2 \<le> length s1" unfolding s2_def by (rule rest)
    have "p \<noteq> []"
    proof
      assume "p = []"
      then have "s1 = []" by (simp add: s1_def strtok_def)
      then have "s2 = []" by (simp add: s2_def strtok_def)
      then have "strtok None ''&'' s2 = (None, [])" by (simp add: strtok_def)
      with n show False by simp
    qed
    then have "length s1 < length p" by (rule first)
    with l1 l2 have "length q < length p" by linarith
    then show ?thesis using Some 2 by simp
  qed
qed

declare cfg_loop.simps [simp del]

text \<open>
  The branch of \<^verbatim>\<open>POST /cfg\<close> that holds \<^verbatim>\<open>mutex_config\<close>: the first
  \<^verbatim>\<open>strtok(body_copy, "&")\<close>, the loop, and the closing brackets of the two lists.
\<close>

definition cfg_update :: "libc \<Rightarrow> config_limits_t \<Rightarrow> string \<Rightarrow> cfg_locals" where
  "cfg_update lc c body_copy =
     (case strtok (Some body_copy) ''&'' [] of (pair, saved) \<Rightarrow>
      let st = cfg_loop lc pair saved
                 \<lparr>config = c, updated = False, updates = ''['', errors = ''['',
                  first_update = True, first_error = True\<rparr>
      in st\<lparr>updates := strncat 256 (updates st) '']'',
            errors := strncat 256 (errors st) '']''\<rparr>)"

subsection \<open>Building the response (\<^verbatim>\<open>handle_http_request\<close>)\<close>

definition cors_headers :: string where
  "cors_headers =
     ''Access-Control-Allow-Origin: *'' @ CRLF
     @ ''Access-Control-Allow-Methods: GET, POST'' @ CRLF
     @ ''Access-Control-Allow-Headers: Content-Type'' @ CRLF"

text \<open>
  The format that every \<^verbatim>\<open>snprintf(header, sizeof(header), ...)\<close> of
  \<^verbatim>\<open>handle_http_request\<close> uses, with its status line, content type and the text
  after \<^verbatim>\<open>Content-Length:\<close> (a literal in the source or \<^verbatim>\<open>%zu\<close> of a \<^verbatim>\<open>strlen\<close>).
\<close>

definition http_header :: "string \<Rightarrow> string \<Rightarrow> string \<Rightarrow> string" where
  "http_header status ctype clen =
     snprintf 256
       (''HTTP/1.1 '' @ status @ CRLF @ ''Content-Type: '' @ ctype @ CRLF @ cors_headers
        @ ''Content-Length: '' @ clen @ CRLF @ ''Connection: close'' @ CRLF @ CRLF)"

text \<open>The three literal responses that are passed as a header with a \<^verbatim>\<open>NULL\<close> body.\<close>

definition bad_request_response :: string where
  "bad_request_response =
     ''HTTP/1.1 400 Bad Request'' @ CRLF @ ''Content-Type: text/plain'' @ CRLF
     @ ''Connection: close'' @ CRLF @ ''Content-Length: 11'' @ CRLF @ CRLF @ ''Bad Request''"

definition too_large_response :: string where
  "too_large_response =
     ''HTTP/1.1 413 Payload Too Large'' @ CRLF @ ''Content-Type: text/plain'' @ CRLF
     @ ''Connection: close'' @ CRLF @ ''Content-Length: 16'' @ CRLF @ CRLF @ ''Payload Too Large''"

definition server_error_response :: string where
  "server_error_response =
     ''HTTP/1.1 500 Internal Server Error'' @ CRLF @ ''Content-Type: text/plain'' @ CRLF
     @ ''Connection: close'' @ CRLF @ ''Content-Length: 22'' @ CRLF @ CRLF @ ''Internal Server Error''"

definition sensor_json :: "libc \<Rightarrow> sensor_data_t \<Rightarrow> string" where
  \<open>sensor_json lc sd =
     snprintf 128
       (''{"temp_aht20":'' @ fmt_f1 lc (temp_aht20 sd)
        @ '',"hum_aht20":'' @ fmt_f1 lc (hum_aht20 sd)
        @ '',"press_bmp280":'' @ fmt_f1 lc (press_bmp280 sd) @ ''}'')\<close>

definition config_json :: "libc \<Rightarrow> config_limits_t \<Rightarrow> string" where
  \<open>config_json lc c =
     snprintf 256
       (''{"temp_min":'' @ fmt_f1 lc (temp_min c)
        @ '',"temp_max":'' @ fmt_f1 lc (temp_max c)
        @ '',"hum_min":'' @ fmt_f1 lc (hum_min c)
        @ '',"hum_max":'' @ fmt_f1 lc (hum_max c)
        @ '',"press_min":'' @ fmt_f1 lc (press_min c)
        @ '',"press_max":'' @ fmt_f1 lc (press_max c)
        @ '',"temp_offset":'' @ fmt_f1 lc (temp_offset c)
        @ '',"hum_offset":'' @ fmt_f1 lc (hum_offset c)
        @ '',"press_offset":'' @ fmt_f1 lc (press_offset c) @ ''}'')\<close>

text \<open>The buffer \<^verbatim>\<open>response[512]\<close> after the loop, and when the mutex was not obtained.\<close>

definition cfg_response :: "cfg_locals \<Rightarrow> string" where
  \<open>cfg_response st =
     snprintf 512
       (''{"status":"'' @ (if updated st then ''success'' else ''error'')
        @ ''","message":"''
        @ (if updated st then ''Configura'' @ c_cedil_a_tilde @ ''o salva''
           else ''Nenhum par'' @ a_circ @ ''metro v'' @ a_acute @ ''lido aplicado'')
        @ ''","updates":'' @ updates st @ '',"errors":'' @ errors st @ ''}'')\<close>

definition cfg_busy_response :: string where
  \<open>cfg_busy_response =
     snprintf 512
       (''{"status":"error","message":"Erro ao acessar configura'' @ c_cedil_a_tilde
        @ ''o","updates":[],"errors":[]}'')\<close>

text \<open>
  The branch \<^verbatim>\<open>POST /cfg\<close>.  \<open>strdup_ok\<close> says whether \<^verbatim>\<open>strdup(body)\<close> returned a
  copy and \<open>mutex_ok\<close> whether \<^verbatim>\<open>xSemaphoreTake(mutex_config, pdMS_TO_TICKS(100))\<close>
  obtained the mutex.  The result is the new \<^verbatim>\<open>config\<close>, the final value of
  \<^verbatim>\<open>updated\<close>, and the header and body handed to \<^verbatim>\<open>send_http_response\<close>.
\<close>

definition post_cfg ::
  "libc \<Rightarrow> bool \<Rightarrow> bool \<Rightarrow> config_limits_t \<Rightarrow> string \<Rightarrow> config_limits_t \<times> bool \<times> string \<times> string option" where
  \<open>post_cfg lc strdup_ok mutex_ok c req =
     (case strstr req (CRLF @ CRLF) of
        None \<Rightarrow>
          (c, False, http_header ''400 Bad Request'' ''application/json'' ''45'',
           Some ''{"status":"error","message":"Corpo ausente"}'')
      | Some sep \<Rightarrow>
          if \<not> strdup_ok then
            (c, False, http_header ''500 Internal Server Error'' ''application/json'' ''48'',
             Some ''{"status":"error","message":"Erro interno"}'')
          else if mutex_ok then
            (let st = cfg_update lc c (drop 4 sep); response = cfg_response st
             in (config st, updated st,
                 http_header (if updated st then ''200 OK'' else ''400 Bad Request'')
                   ''application/json'' (fmt_zu (length response)),
                 Some response))
          else
            (c, False,
             http_header ''400 Bad Request'' ''application/json'' (fmt_zu (length cfg_busy_response)),
             Some cfg_busy_response))\<close>

text \<open>
  \<^verbatim>\<open>handle_http_request\<close> up to its call of \<^verbatim>\<open>send_http_response\<close>: the new
  \<^verbatim>\<open>config\<close> and the header and body of that call.  \<open>html_page\<close> is the embedded
  dashboard document.
\<close>

definition handle_http_request ::
  "libc \<Rightarrow> string \<Rightarrow> bool \<Rightarrow> bool \<Rightarrow> sensor_data_t \<Rightarrow> config_limits_t \<Rightarrow> string
     \<Rightarrow> config_limits_t \<times> string \<times> string option" where
  "handle_http_request lc html_page strdup_ok mutex_ok sd c req =
     (if req = [] then (c, bad_request_response, None)
      else if strstr req ''GET /json'' \<noteq> None then
        (c, http_header ''200 OK'' ''application/json'' (fmt_zu (length (sensor_json lc sd))),
         Some (sensor_json lc sd))
      else if strstr req ''GET /config'' \<noteq> None then
        (c, http_header ''200 OK'' ''application/json'' (fmt_zu (length (config_json lc c))),
         Some (config_json lc c))
      else if strstr req ''POST /cfg'' \<noteq> None then
        (case post_cfg lc strdup_ok mutex_ok c req of (c', upd, header, body) \<Rightarrow> (c', header, body))
      else if strstr req ''GET /'' \<noteq> None \<or> strstr req ''GET /index.html'' \<noteq> None then
        (c, http_header ''200 OK'' ''text/html'' (fmt_zu (length html_page)), Some html_page)
      else
        (c, http_header ''404 Not Found'' ''text/plain'' ''12'', Some ''404 Not Found''))"

subsection \<open>Receive and error callbacks\<close>

text \<open>
  \<^verbatim>\<open>webserver_recv(arg, tpcb, p, err)\<close> at time \<open>now\<close>.  \<open>p\<close> is the payload of the
  pbuf chain (\<open>None\<close> for a \<^verbatim>\<open>NULL\<close> pbuf, the peer's close) and \<open>calloc_ok\<close> says
  whether the request buffer was allocated.  The request string ends at the first NUL
  byte of the payload.
\<close>

definition webserver_recv ::
  "tcp_errs \<Rightarrow> libc \<Rightarrow> string \<Rightarrow> bool \<Rightarrow> bool \<Rightarrow> bool \<Rightarrow> int \<Rightarrow> sensor_data_t
     \<Rightarrow> nat option \<Rightarrow> nat \<Rightarrow> string option \<Rightarrow> config_limits_t \<times> world
     \<Rightarrow> (config_limits_t \<times> world) option" where
  "webserver_recv e lc html_page calloc_ok strdup_ok mutex_ok now sd arg tpcb p cw =
     (case cw of (c, w) \<Rightarrow>
      case p of
        None \<Rightarrow> map_option (Pair c) (close_connection (e_close e) arg w)
      | Some payload \<Rightarrow>
          if length payload > MAX_REQUEST_SIZE
          then map_option (Pair c) (send_http_response e tpcb too_large_response None arg w)
          else
            (case arg of
               None \<Rightarrow> None
             | Some s \<Rightarrow>
                 (case heap w s of
                    None \<Rightarrow> None
                  | Some cs \<Rightarrow>
                      (let w1 = set_state s (cs\<lparr>timeout := make_timeout_time_ms now TCP_TIMEOUT_MS\<rparr>) w
                       in if \<not> calloc_ok
                          then map_option (Pair c)
                                 (send_http_response e tpcb server_error_response None arg w1)
                          else
                            (case handle_http_request lc html_page strdup_ok mutex_ok sd c
                                    (takeWhile (\<lambda>ch. ch \<noteq> CHR 0x00) payload) of
                               (c', header, body) \<Rightarrow>
                                 map_option (Pair c')
                                   (send_http_response e tpcb header body arg w1))))))"

text \<open>\<^verbatim>\<open>webserver_error(arg, err)\<close>.\<close>

definition webserver_error :: "int \<Rightarrow> nat option \<Rightarrow> world \<Rightarrow> world option" where
  "webserver_error cerr arg w =
     (case arg of None \<Rightarrow> Some w | Some s \<Rightarrow> close_connection cerr (Some s) w)"

subsection \<open>Alert task\<close>

text \<open>
  What one cycle of \<^verbatim>\<open>tarefa_alerta\<close> reads and writes besides the sensor data and the
  configuration: the flag \<^verbatim>\<open>alert_active\<close>, the three LED pins, the diagnostic console,
  the number of buzzer pulses emitted, and whether the task is left holding
  \<^verbatim>\<open>mutex_sensor\<close>.
\<close>

record alert_io =
  alert_active :: bool
  led_red :: bool
  led_green :: bool
  led_blue :: bool
  console :: "string list"
  tone_pulses :: nat
  holds_mutex_sensor :: bool

definition out_of_limits :: "sensor_data_t \<Rightarrow> config_limits_t \<Rightarrow> bool" where
  "out_of_limits sd c =
     (flt (temp_aht20 sd) (temp_min c) \<or> fgt (temp_aht20 sd) (temp_max c) \<or>
      flt (hum_aht20 sd) (hum_min c) \<or> fgt (hum_aht20 sd) (hum_max c) \<or>
      flt (press_bmp280 sd) (press_min c) \<or> fgt (press_bmp280 sd) (press_max c))"

definition emitir_alerta :: "alert_io \<Rightarrow> alert_io" where
  "emitir_alerta st = st\<lparr>tone_pulses := tone_pulses st + 3\<rparr>"

definition atualizar_led_status :: "bool \<Rightarrow> alert_io \<Rightarrow> alert_io" where
  "atualizar_led_status wifi_connected st =
     (if alert_active st then st\<lparr>led_red := True, led_green := False, led_blue := False\<rparr>
      else st\<lparr>led_red := False, led_green := True, led_blue := \<not> wifi_connected\<rparr>)"

definition alert_message :: "libc \<Rightarrow> sensor_data_t \<Rightarrow> string" where
  "alert_message lc sd =
     ''[ALERTA] Par'' @ a_circ @ ''metro fora do limite! T:'' @ fmt_f1 lc (temp_aht20 sd)
     @ '' U:'' @ fmt_f1 lc (hum_aht20 sd) @ '' P:'' @ fmt_f1 lc (press_bmp280 sd) @ [CHR 0x0A]"

definition info_message :: string where
  "info_message = ''[INFO] Todos os par'' @ a_circ @ ''metros dentro dos limites.'' @ [CHR 0x0A]"

text \<open>
  One iteration of the \<^verbatim>\<open>while (1)\<close> of \<^verbatim>\<open>tarefa_alerta\<close>, up to its
  \<^verbatim>\<open>vTaskDelay\<close>.  \<open>take_sensor\<close> and \<open>take_config\<close> are the results of the two
  \<^verbatim>\<open>xSemaphoreTake(..., pdMS_TO_TICKS(100))\<close>; the second is attempted only when the
  first succeeded, and when it fails \<^verbatim>\<open>mutex_sensor\<close> is not given back.
\<close>

definition tarefa_alerta ::
  "libc \<Rightarrow> bool \<Rightarrow> bool \<Rightarrow> bool \<Rightarrow> sensor_data_t \<Rightarrow> config_limits_t \<Rightarrow> alert_io \<Rightarrow> alert_io" where
  "tarefa_alerta lc take_sensor take_config wifi_connected sd c st =
     (let alerta = (take_sensor \<and> take_config \<and> out_of_limits sd c);
          st1 = st\<lparr>holds_mutex_sensor := holds_mutex_sensor st \<or> (take_sensor \<and> \<not> take_config)\<rparr>;
          st2 = (if alert_active st1 \<noteq> alerta
                 then (if alerta
                       then emitir_alerta (st1\<lparr>console := console st1 @ [alert_message lc sd]\<rparr>)
                       else st1\<lparr>console := console st1 @ [info_message]\<rparr>)
                 else st1)
      in atualizar_led_status wifi_connected (st2\<lparr>alert_active := alerta\<rparr>))"

subsection \<open>Statements about the configuration\<close>


definition field_range :: "string \<Rightarrow> (real \<times> real) option" where
  "field_range key =
     (if key = ''temp_min'' \<or> key = ''temp_max'' then Some (- 50, 50)
      else if key = ''hum_min'' \<or> key = ''hum_max'' then Some (0, 100)
      else if key = ''press_min'' \<or> key = ''press_max'' then Some (300, 1100)
      else if key = ''temp_offset'' \<or> key = ''hum_offset'' then Some (- 10, 10)
      else if key = ''press_offset'' then Some (- 50, 50)
      else None)"

definition within_range :: "string \<Rightarrow> cfloat \<Rightarrow> bool" where
  "within_range key val =
     (case field_range key of
        None \<Rightarrow> False
      | Some (lo, hi) \<Rightarrow> fle (Fin lo) val \<and> fle val (Fin hi))"

text \<open>
  What a client reads off a response: the status line of the header (up to the first
  CR), and whether the body opens with the member \<^verbatim>\<open>"status"\<close> holding a given word.
  \<open>field_names\<close> are the nine keys of the chain in \<open>cfg_field\<close>.
\<close>

definition status_line :: "string \<Rightarrow> string" where
  "status_line header = takeWhile (\<lambda>ch. ch \<noteq> CHR 0x0D) header"

definition reports_status :: "string \<Rightarrow> string \<Rightarrow> bool" where
  \<open>reports_status s body = (take (length s + 12) body = ''{"status":"'' @ s @ ''"'')\<close>

definition field_names :: "string list" where
  "field_names =
     [''temp_min'', ''temp_max'', ''hum_min'', ''hum_max'', ''press_min'', ''press_max'',
      ''temp_offset'', ''hum_offset'', ''press_offset'']"

text \<open>
  The effect of applying one field, the test of a limit against the opposite limit,
  and a list of fields applied in turn: \<open>accepted c xs\<close> says that each field of \<open>xs\<close>
  is one of the nine names, carries a value inside its fixed range and, when it is a
  limit, lies strictly on its side of the opposite limit current at that moment;
  \<open>apply_all\<close> writes the fields in turn.  \<open>report_updates\<close> is the buffer
  \<^verbatim>\<open>updates[256]\<close> and the flag \<^verbatim>\<open>first_update\<close> after the entries of such a list
  were appended as the loop does it.  \<open>fields_kept_or_in_range c c'\<close> compares two
  configurations field by field.
\<close>

definition set_field :: "string \<Rightarrow> cfloat \<Rightarrow> config_limits_t \<Rightarrow> config_limits_t" where
  "set_field key val c =
     (if key = ''temp_min'' then c\<lparr>temp_min := val\<rparr>
      else if key = ''temp_max'' then c\<lparr>temp_max := val\<rparr>
      else if key = ''hum_min'' then c\<lparr>hum_min := val\<rparr>
      else if key = ''hum_max'' then c\<lparr>hum_max := val\<rparr>
      else if key = ''press_min'' then c\<lparr>press_min := val\<rparr>
      else if key = ''press_max'' then c\<lparr>press_max := val\<rparr>
      else if key = ''temp_offset'' then c\<lparr>temp_offset := val\<rparr>
      else if key = ''hum_offset'' then c\<lparr>hum_offset := val\<rparr>
      else if key = ''press_offset'' then c\<lparr>press_offset := val\<rparr>
      else c)"

definition cross_ok :: "config_limits_t \<Rightarrow> string \<Rightarrow> cfloat \<Rightarrow> bool" where
  "cross_ok c key val =
     (if key = ''temp_min'' then flt val (temp_max c)
      else if key = ''temp_max'' then flt (temp_min c) val
      else if key = ''hum_min'' then flt val (hum_max c)
      else if key = ''hum_max'' then flt (hum_min c) val
      else if key = ''press_min'' then flt val (press_max c)
      else if key = ''press_max'' then flt (press_min c) val
      else True)"









subsection \<open>Example states\<close>

text \<open>
  A pool with one connection in slot 0: its state is the block at address 1, its transport
  handle is 7, and its idle-deadline was set at time 0 (so it is 10 s).
\<close>

definition idle_conn :: conn_state_t where
  "idle_conn = \<lparr>pcb = Some 7, timeout = make_timeout_time_ms 0 TCP_TIMEOUT_MS,
                 response_sent = False, remaining_data = None, remaining_len = 0\<rparr>"

definition idle_world :: world where
  "idle_world =
     \<lparr>active_connections = (\<lambda>i. None)(0 := Some 1),
      heap = (\<lambda>a. None)(1 := Some idle_conn),
      pcbs = (\<lambda>p. None)(7 := Some \<lparr>callback_arg = Some 1, recv_cb = True,
                                       sent_cb = True, err_cb = True\<rparr>),
      wire = []\<rparr>"

text \<open>The pool after that connection has been torn down.\<close>

definition closed_world :: world where
  "closed_world =
     \<lparr>active_connections = (\<lambda>i. None), heap = (\<lambda>a. None), pcbs = (\<lambda>p. None), wire = []\<rparr>"

text \<open>
  A pool whose four slots are occupied (states 1 to 4 on handles 11 to 14), and a new
  handle 20 that lwIP passes to the accept callback.
\<close>

definition full_world :: world where
  "full_world =
     \<lparr>active_connections = (\<lambda>i. Some (Suc i)),
      heap = (\<lambda>a. if 1 \<le> a \<and> a \<le> 4 then Some (idle_conn\<lparr>pcb := Some (10 + a)\<rparr>) else None),
      pcbs = (\<lambda>p. if 11 \<le> p \<and> p \<le> 14
                    then Some \<lparr>callback_arg = Some (p - 10), recv_cb = True,
                               sent_cb = True, err_cb = True\<rparr>
                    else if p = 20
                    then Some \<lparr>callback_arg = None, recv_cb = False,
                               sent_cb = False, err_cb = False\<rparr>
                    else None),
      wire = []\<rparr>"

text \<open>
  The compiled-in defaults of \<^verbatim>\<open>config\<close>, a reading with the temperature above its
  limit, and the task state in ALERT after one tone pattern.
\<close>

definition default_config :: config_limits_t where
  "default_config =
     \<lparr>temp_min = Fin 15, temp_max = Fin 30, hum_min = Fin 30, hum_max = Fin 70,
      press_min = Fin 950, press_max = Fin 1050,
      temp_offset = Fin 0, hum_offset = Fin 0, press_offset = Fin 0\<rparr>"

definition hot_reading :: sensor_data_t where
  "hot_reading = \<lparr>temp_aht20 = Fin 45, hum_aht20 = Fin 50, press_bmp280 = Fin 1000\<rparr>"

definition alerting :: alert_io where
  "alerting =
     \<lparr>alert_active = True, led_red = True, led_green = False, led_blue = False,
      console = [], tone_pulses = 3, holds_mutex_sensor = False\<rparr>"

text \<open>
  A small stand-in for libc in examples: it converts the two texts \<^verbatim>\<open>10\<close> and
  \<^verbatim>\<open>35\<close> and nothing else, and prints every float as \<^verbatim>\<open>0.0\<close>.
\<close>

definition toy_libc :: libc where
  "toy_libc =
     \<lparr>fmt_f1 = (\<lambda>x. ''0.0''),
      sscanf_f = (\<lambda>v. if v = ''10'' then Some (Fin 10)
                        else if v = ''35'' then Some (Fin 35) else None)\<rparr>"

definition toy_page :: string where
  "toy_page = ''<html></html>''"

text \<open>
  A configuration request with one pair, and the loop variables as they are before the
  first pair.
\<close>

definition post_temp_min :: string where
  "post_temp_min = ''POST /cfg HTTP/1.1'' @ CRLF @ CRLF @ ''temp_min=10''"

definition fresh_locals :: cfg_locals where
  "fresh_locals =
     \<lparr>config = default_config, updated = False, updates = ''['', errors = ''['',
      first_update = True, first_error = True\<rparr>"



text \<open>
  A body of 513 bytes, and the connection of \<open>idle_world\<close> while the last byte of
  that body is still to be sent.
\<close>

definition two_chunk_body :: string where
  "two_chunk_body = replicate 512 (CHR ''a'') @ ''b''"

definition streaming_conn :: conn_state_t where
  "streaming_conn = idle_conn\<lparr>response_sent := True, remaining_data := Some ''b'', remaining_len := 1\<rparr>"

definition streaming_world :: world where
  "streaming_world = idle_world\<lparr>heap := (heap idle_world)(1 := Some streaming_conn)\<rparr>"

section \<open>Properties\<close>

subsection \<open>Idle sweep\<close>

lemma timeout_test_never:
  assumes "t0 \<le> now"
  shows "\<not> timeout_test now (make_timeout_time_ms t0 TCP_TIMEOUT_MS)"
proof -
  let ?d = "t0 + 10000000 - now"
  have le: "?d \<le> 10000000" using assms by simp
  have "?d sdiv 1000 \<le> 10000"
  proof (cases "0 \<le> ?d")
    case True
    then have "?d sdiv 1000 = ?d div 1000"
      by (simp add: signed_divide_int_def sgn_if)
    also have "\<dots> \<le> 10000" using le by simp
    finally show ?thesis .
  next
    case False
    then have "?d sdiv 1000 = - (\<bar>?d\<bar> div 1000)"
      by (simp add: signed_divide_int_def sgn_if)
    also have "\<dots> \<le> 0" by simp
    finally show ?thesis by simp
  qed
  then show ?thesis
    by (simp add: timeout_test_def absolute_time_diff_us_def make_timeout_time_ms_def
        TCP_TIMEOUT_MS_def)
qed

lemma timeout_slot_keeps:
  assumes "\<And>s. active_connections w i = Some s \<Longrightarrow>
             \<exists>cs. heap w s = Some cs \<and> \<not> timeout_test now (timeout cs)"
  shows "timeout_slot now cerr i w = Some w"
proof (cases "active_connections w i")
  case None
  then show ?thesis by (simp add: timeout_slot_def)
next
  case (Some s)
  with assms obtain cs where "heap w s = Some cs" "\<not> timeout_test now (timeout cs)" by blast
  with Some show ?thesis by (simp add: timeout_slot_def)
qed

lemma for_slots_keeps:
  assumes "\<And>i. i \<in> set js \<Longrightarrow> body i w = Some w"
  shows "for_slots body js w = Some w"
  using assms by (induction js) simp_all

text \<open>
  A connection whose deadline was set by \<^verbatim>\<open>make_timeout_time_ms(TCP_TIMEOUT_MS)\<close> at some
  time \<open>t0 s\<close> is left alone by every later scan, however late.
\<close>

lemma sweep_never_closes:
  assumes live: "\<And>i s. active_connections w i = Some s \<Longrightarrow>
             \<exists>cs. heap w s = Some cs \<and> timeout cs = make_timeout_time_ms (t0 s) TCP_TIMEOUT_MS
                  \<and> t0 s \<le> now"
  shows "tarefa_timeout now cerr w = Some w"
  unfolding tarefa_timeout_def
proof (rule for_slots_keeps)
  fix i
  show "timeout_slot now cerr i w = Some w"
  proof (rule timeout_slot_keeps)
    fix s
    assume "active_connections w i = Some s"
    from live [OF this] obtain cs where cs: "heap w s = Some cs"
      "timeout cs = make_timeout_time_ms (t0 s) TCP_TIMEOUT_MS" "t0 s \<le> now" by blast
    then have "\<not> timeout_test now (timeout cs)" by (simp add: timeout_test_never)
    with cs show "\<exists>cs. heap w s = Some cs \<and> \<not> timeout_test now (timeout cs)" by blast
  qed
qed

text \<open>
  C3 (the idle sweep tears down the slots whose idle-deadline has passed).  The code does
  not: the connection of \<open>idle_world\<close> has its deadline at 10 s, and the scan at 11 s
  leaves the pool, the connection state and the transport handle as they were.
\<close>

theorem sweep_leaves_expired_connection:
  "timeout idle_conn = 10000000 \<and>
   tarefa_timeout 11000000 (\<lambda>i. ERR_OK) idle_world = Some idle_world"
  by (simp add: idle_conn_def idle_world_def tarefa_timeout_def slot_indices_def
      timeout_slot_def timeout_test_def absolute_time_diff_us_def make_timeout_time_ms_def
      TCP_TIMEOUT_MS_def signed_divide_int_def)

subsection \<open>Alert task\<close>

lemma alert_lock_timeout_clears:
  "\<not> (take_sensor \<and> take_config) \<Longrightarrow>
     alert_active (tarefa_alerta lc take_sensor take_config wifi sd c st) = False"
  by (auto simp: tarefa_alerta_def Let_def atualizar_led_status_def emitir_alerta_def)

lemma alert_second_lock_timeout_keeps_sensor_mutex:
  "holds_mutex_sensor (tarefa_alerta lc True False wifi sd c st)"
  by (auto simp: tarefa_alerta_def Let_def atualizar_led_status_def emitir_alerta_def)

text \<open>
  C8 (a cycle whose lock acquisition times out leaves the alert state unchanged and logs
  the timeout).  The code does not: in ALERT, with the reading still out of limits, a
  cycle that fails to take \<^verbatim>\<open>mutex_sensor\<close> clears \<^verbatim>\<open>alert_active\<close>, turns the LED from
  red to green, and prints only the all-within-limits message.
\<close>

theorem alert_cleared_on_lock_timeout:
  "out_of_limits hot_reading default_config \<and>
   tarefa_alerta toy_libc False False True hot_reading default_config alerting =
     alerting\<lparr>alert_active := False, led_red := False, led_green := True, led_blue := False,
              console := [info_message]\<rparr>"
  by (simp add: tarefa_alerta_def Let_def atualizar_led_status_def emitir_alerta_def
      out_of_limits_def hot_reading_def default_config_def alerting_def fgt_def)

subsection \<open>Dispatch and response headers\<close>

text \<open>
  C6 (a GET for a path other than the defined routes is answered 404, not with the
  dashboard).  The code does not: \<^verbatim>\<open>strstr(req, "GET /")\<close> matches every GET request
  line, so this request for an undefined path gets the dashboard with status 200.
\<close>

theorem get_other_path_serves_dashboard:
  "handle_http_request lc html_page strdup_ok mutex_ok sd c
     (''GET /nothing-here HTTP/1.1'' @ CRLF @ CRLF) =
     (c, http_header ''200 OK'' ''text/html'' (fmt_zu (length html_page)), Some html_page)"
  by (simp add: handle_http_request_def CRLF_def)

text \<open>C6's failing request with the stand-in libc and a short dashboard document.\<close>

theorem get_other_path_serves_dashboard_witness:
  "handle_http_request toy_libc toy_page True True hot_reading default_config
     (''GET /nothing-here HTTP/1.1'' @ CRLF @ CRLF) =
     (default_config, http_header ''200 OK'' ''text/html'' (fmt_zu (length toy_page)), Some toy_page)"
  by (rule get_other_path_serves_dashboard)

lemma get_never_404:
  assumes "req \<noteq> []" and "strstr req ''GET /'' \<noteq> None"
    and "strstr req ''GET /json'' = None" and "strstr req ''GET /config'' = None"
    and "strstr req ''POST /cfg'' = None"
  shows "handle_http_request lc html_page strdup_ok mutex_ok sd c req =
           (c, http_header ''200 OK'' ''text/html'' (fmt_zu (length html_page)), Some html_page)"
  using assms by (simp add: handle_http_request_def)

text \<open>
  Which requests reach the \<^verbatim>\<open>POST /cfg\<close> branch.  The tests are substring searches
  over the whole request, so a configuration request whose body mentions another route
  is answered by that route.
\<close>

lemma handle_post_cfg:
  assumes "req \<noteq> []" and "strstr req ''GET /json'' = None" and "strstr req ''GET /config'' = None"
    and "strstr req ''POST /cfg'' \<noteq> None"
    and "post_cfg lc strdup_ok mutex_ok c req = (c', upd, header, body)"
  shows "handle_http_request lc html_page strdup_ok mutex_ok sd c req = (c', header, body)"
  using assms by (simp add: handle_http_request_def)

lemma post_body_selects_get_route:
  "handle_http_request lc html_page strdup_ok mutex_ok sd c
     (''POST /cfg HTTP/1.1'' @ CRLF @ CRLF @ ''temp_min=10&note=GET /json'')
   = (c, http_header ''200 OK'' ''application/json'' (fmt_zu (length (sensor_json lc sd))),
      Some (sensor_json lc sd))"
  by (simp add: handle_http_request_def CRLF_def)

text \<open>
  C9 (every response carries the cross-origin headers and a Content-Length equal to the
  length of the body sent).  The code does not: the not-found response announces 12 bytes
  and sends the 13 bytes of its body.
\<close>

theorem not_found_content_length_mismatch:
  "handle_http_request lc html_page strdup_ok mutex_ok sd c (''PUT /x HTTP/1.1'' @ CRLF @ CRLF) =
     (c, ''HTTP/1.1 404 Not Found'' @ CRLF @ ''Content-Type: text/plain'' @ CRLF
         @ cors_headers @ ''Content-Length: 12'' @ CRLF @ ''Connection: close'' @ CRLF @ CRLF,
      Some ''404 Not Found'') \<and> length ''404 Not Found'' = 13"
  by (simp add: handle_http_request_def CRLF_def http_header_def snprintf_def cors_headers_def)

text \<open>C9's failing request with the stand-in libc and a short dashboard document.\<close>

theorem not_found_content_length_mismatch_witness:
  "handle_http_request toy_libc toy_page True True hot_reading default_config
     (''PUT /x HTTP/1.1'' @ CRLF @ CRLF) =
     (default_config,
      ''HTTP/1.1 404 Not Found'' @ CRLF @ ''Content-Type: text/plain'' @ CRLF
         @ cors_headers @ ''Content-Length: 12'' @ CRLF @ ''Connection: close'' @ CRLF @ CRLF,
      Some ''404 Not Found'') \<and> length ''404 Not Found'' = 13"
  by (rule not_found_content_length_mismatch)

text \<open>
  The literal responses of \<^verbatim>\<open>webserver_recv\<close> and of the empty request: none has a
  cross-origin header, and two announce a length that is not the length of their body.
\<close>

lemma too_large_response_headers:
  "strstr too_large_response ''Access-Control-Allow-Origin'' = None \<and>
   strstr too_large_response ''Content-Length: 16'' \<noteq> None \<and>
   strstr too_large_response (CRLF @ CRLF) = Some (CRLF @ CRLF @ ''Payload Too Large'') \<and>
   length ''Payload Too Large'' = 17"
  by (simp add: too_large_response_def CRLF_def)

lemma server_error_response_headers:
  "strstr server_error_response ''Access-Control-Allow-Origin'' = None \<and>
   strstr server_error_response ''Content-Length: 22'' \<noteq> None \<and>
   strstr server_error_response (CRLF @ CRLF) = Some (CRLF @ CRLF @ ''Internal Server Error'') \<and>
   length ''Internal Server Error'' = 21"
  by (simp add: server_error_response_def CRLF_def)

lemma bad_request_response_headers:
  "strstr bad_request_response ''Access-Control-Allow-Origin'' = None \<and>
   strstr bad_request_response ''Content-Length: 11'' \<noteq> None \<and>
   strstr bad_request_response (CRLF @ CRLF) = Some (CRLF @ CRLF @ ''Bad Request'') \<and>
   length ''Bad Request'' = 11"
  by (simp add: bad_request_response_def CRLF_def)

subsection \<open>Teardown\<close>

lemma release_slot_unique:
  assumes "i \<in> set js" and "pool i = Some s"
    and "\<And>j. j \<in> set js \<Longrightarrow> pool j = Some s \<Longrightarrow> j = i"
  shows "release_slot s js pool = pool(i := None)"
  using assms
proof (induction js)
  case Nil
  then show ?case by simp
next
  case (Cons a js)
  show ?case
  proof (cases "pool a = Some s")
    case True
    then have "a = i" using Cons.prems(3) by simp
    then show ?thesis using True by simp
  next
    case False
    then have "a \<noteq> i" using Cons.prems(2) by auto
    then have in_js: "i \<in> set js" using Cons.prems(1) by simp
    have "release_slot s js pool = pool(i := None)"
    proof (rule Cons.IH)
      show "i \<in> set js" by (rule in_js)
      show "pool i = Some s" by (rule Cons.prems(2))
      show "j = i" if "j \<in> set js" "pool j = Some s" for j
        using that Cons.prems(3) [of j] by simp
    qed
    then show ?thesis using False by simp
  qed
qed

lemma release_slot_absent:
  "(\<And>j. j \<in> set js \<Longrightarrow> pool j \<noteq> Some s) \<Longrightarrow> release_slot s js pool = pool"
  by (induction js) simp_all


lemma find_free_slot_none:
  "(find_free_slot js pool = None) = (\<forall>i\<in>set js. pool i \<noteq> None)"
  by (induction js) auto

lemma find_free_slot_some:
  "find_free_slot js pool = Some i \<Longrightarrow> i \<in> set js \<and> pool i = None"
  by (induction js) (auto split: if_splits)

text \<open>
  C4 as stated (a second invocation of teardown on the same connection is a no-op) fails:
  the first call frees the state, and the second reads \<^verbatim>\<open>state->pcb\<close> of the freed
  block.
\<close>

theorem second_teardown_not_noop:
  "close_connection ERR_OK (Some 1) idle_world = Some closed_world \<and>
   close_connection ERR_OK (Some 1) closed_world = None"
  by (auto simp: close_connection_def idle_world_def closed_world_def idle_conn_def
      slot_indices_def tcp_close_def tcp_clear_callbacks_def fun_eq_iff)

text \<open>
  C4, amended: teardown of a live connection releases its pool slot, its callback
  registrations, its transport handle (when \<^verbatim>\<open>tcp_close\<close> succeeds) and its state once
  and touches nothing else; afterwards neither a send-complete notification of that
  handle nor the sweep over that slot reaches teardown again, and teardown of a
  \<^verbatim>\<open>NULL\<close> state is a no-op.  A second invocation on the freed state is not a no-op.
\<close>

theorem teardown_releases_once:
  assumes live: "heap w s = Some cs" "pcb cs = Some p"
    and slot: "i \<in> set slot_indices" "active_connections w i = Some s"
    and uniq: "\<And>j. j \<in> set slot_indices \<Longrightarrow> active_connections w j = Some s \<Longrightarrow> j = i"
  shows "\<exists>w'. close_connection cerr (Some s) w = Some w'
           \<and> active_connections w' = (active_connections w)(i := None)
           \<and> heap w' = (heap w)(s := None)
           \<and> (\<forall>q. q \<noteq> p \<longrightarrow> pcbs w' q = pcbs w q)
           \<and> (case pcbs w' p of
                 None \<Rightarrow> True
               | Some b \<Rightarrow> callback_arg b = None \<and> \<not> recv_cb b \<and> \<not> sent_cb b \<and> \<not> err_cb b)
           \<and> (cerr = ERR_OK \<longrightarrow> pcbs w' p = None)
           \<and> wire w' = wire w
           \<and> lwip_sent e p w' = Some w'
           \<and> timeout_slot now ce i w' = Some w'
           \<and> close_connection cerr2 None w' = Some w'
           \<and> close_connection cerr2 (Some s) w' = None"
proof -
  define w' where "w' = w\<lparr>active_connections := (active_connections w)(i := None),
                          pcbs := tcp_close cerr p (tcp_clear_callbacks p (pcbs w)),
                          heap := (heap w)(s := None)\<rparr>"
  have rel: "release_slot s slot_indices (active_connections w) = (active_connections w)(i := None)"
    using slot uniq by (rule release_slot_unique)
  have 1: "close_connection cerr (Some s) w = Some w'"
    using live rel by (simp add: close_connection_def w'_def)
  have 2: "\<forall>q. q \<noteq> p \<longrightarrow> pcbs w' q = pcbs w q"
    by (simp add: w'_def tcp_close_def tcp_clear_callbacks_def split: option.split)
  have 3: "case pcbs w' p of
             None \<Rightarrow> True
           | Some b \<Rightarrow> callback_arg b = None \<and> \<not> recv_cb b \<and> \<not> sent_cb b \<and> \<not> err_cb b"
    by (simp add: w'_def tcp_close_def tcp_clear_callbacks_def split: option.split)
  have 4: "cerr = ERR_OK \<longrightarrow> pcbs w' p = None"
    by (simp add: w'_def tcp_close_def)
  have 5: "lwip_sent e p w' = Some w'"
    using 3 by (cases "pcbs w' p") (simp_all add: lwip_sent_def)
  have 6: "timeout_slot now ce i w' = Some w'"
    by (simp add: timeout_slot_def w'_def)
  have 7: "close_connection cerr2 (Some s) w' = None"
    by (simp add: close_connection_def w'_def)
  have 8: "close_connection cerr2 None w' = Some w'"
    by (simp add: close_connection_def)
  have 9: "active_connections w' = (active_connections w)(i := None)"
    "heap w' = (heap w)(s := None)" "wire w' = wire w"
    by (simp_all add: w'_def)
  from 1 2 3 4 5 6 7 8 9 show ?thesis by blast
qed

text \<open>The amended C4 at the connection of \<open>idle_world\<close>.\<close>

theorem teardown_releases_once_witness:
  "\<exists>w'. close_connection ERR_OK (Some 1) idle_world = Some w'
         \<and> active_connections w' = (active_connections idle_world)(0 := None)
         \<and> heap w' = (heap idle_world)(1 := None)
         \<and> pcbs w' 7 = None
         \<and> lwip_sent all_ok 7 w' = Some w'
         \<and> timeout_slot 11000000 (\<lambda>i. ERR_OK) 0 w' = Some w'
         \<and> close_connection ERR_OK (Some 1) w' = None"
proof -
  have a: "heap idle_world 1 = Some idle_conn" "pcb idle_conn = Some 7"
    "0 \<in> set slot_indices" "active_connections idle_world 0 = Some 1"
    by (simp_all add: idle_world_def idle_conn_def slot_indices_def)
  have b: "j = 0" if "j \<in> set slot_indices" "active_connections idle_world j = Some 1" for j
    using that by (simp add: idle_world_def split: if_splits)
  from teardown_releases_once [OF a b, of ERR_OK all_ok 11000000 "\<lambda>i. ERR_OK" ERR_OK]
  show ?thesis by blast
qed

subsection \<open>Accept\<close>

lemma slot_indices_range: "slot_indices = [0..<MAX_CONNECTIONS]"
  by (simp add: slot_indices_def MAX_CONNECTIONS_def upt_rec)

lemma accept_without_memory_refuses:
  "webserver_accept ERR_OK (Some p) None now cerr w = (r, w') \<Longrightarrow>
     r = ERR_MEM \<and> active_connections w' = active_connections w \<and> heap w' = heap w
     \<and> wire w' = wire w"
  by (auto simp: webserver_accept_def split: option.splits)

lemma accept_transport_error_refuses:
  "err \<noteq> ERR_OK \<or> newpcb = None \<Longrightarrow>
     webserver_accept err newpcb alloc now cerr w = (ERR_VAL, w)"
  by (auto simp: webserver_accept_def)

text \<open>
  C7 as stated (when a free slot exists, the slot is reserved) fails when \<^verbatim>\<open>calloc\<close>
  returns \<^verbatim>\<open>NULL\<close>: slot 1 of \<open>idle_world\<close> is free, and the attempt is refused with
  \<open>ERR_MEM\<close> and nothing reserved.
\<close>

theorem accept_without_memory_reserves_nothing:
  "active_connections idle_world 1 = None
   \<and> webserver_accept ERR_OK (Some 20) None 0 ERR_OK idle_world = (ERR_MEM, idle_world)"
  by (auto simp: webserver_accept_def idle_world_def slot_indices_def tcp_close_def fun_eq_iff)

text \<open>
  C7, amended: a connection attempt that arrives while every slot of the pool is occupied
  is refused with \<open>ERR_MEM\<close>: nothing is allocated, and the pool, the connection states,
  the other handles and the data sent are as before (only the new handle is closed).
  When a slot is free and the state block is allocated, a free slot holds the new state,
  whose idle-deadline is 10 s after \<open>now\<close>, and the handle's argument and three
  callbacks are bound to it.
\<close>

theorem accept_refuses_when_full_else_reserves:
  "((\<forall>i\<in>set slot_indices. active_connections w i \<noteq> None) \<longrightarrow>
      webserver_accept ERR_OK (Some p) alloc now cerr w
        = (ERR_MEM, w\<lparr>pcbs := tcp_close cerr p (pcbs w)\<rparr>))
   \<and>
   ((\<exists>i\<in>set slot_indices. active_connections w i = None) \<longrightarrow>
      (\<exists>i\<in>set slot_indices. active_connections w i = None \<and>
         webserver_accept ERR_OK (Some p) (Some a) now cerr w
           = (ERR_OK,
              w\<lparr>heap := (heap w)(a := Some
                     \<lparr>pcb = Some p, timeout = now + 10000 * 1000,
                      response_sent = False, remaining_data = None, remaining_len = 0\<rparr>),
                active_connections := (active_connections w)(i := Some a),
                pcbs := (pcbs w)(p := Some \<lparr>callback_arg = Some a, recv_cb = True,
                                           sent_cb = True, err_cb = True\<rparr>)\<rparr>)))"
proof (intro conjI impI)
  assume "\<forall>i\<in>set slot_indices. active_connections w i \<noteq> None"
  then have "find_free_slot slot_indices (active_connections w) = None"
    by (simp add: find_free_slot_none)
  then show "webserver_accept ERR_OK (Some p) alloc now cerr w
        = (ERR_MEM, w\<lparr>pcbs := tcp_close cerr p (pcbs w)\<rparr>)"
    by (simp add: webserver_accept_def)
next
  assume "\<exists>i\<in>set slot_indices. active_connections w i = None"
  then have "find_free_slot slot_indices (active_connections w) \<noteq> None"
    by (simp add: find_free_slot_none)
  then obtain i where i: "find_free_slot slot_indices (active_connections w) = Some i"
    by blast
  then have fr: "i \<in> set slot_indices" "active_connections w i = None"
    using find_free_slot_some by blast+
  have "webserver_accept ERR_OK (Some p) (Some a) now cerr w
           = (ERR_OK,
              w\<lparr>heap := (heap w)(a := Some
                     \<lparr>pcb = Some p, timeout = now + 10000 * 1000,
                      response_sent = False, remaining_data = None, remaining_len = 0\<rparr>),
                active_connections := (active_connections w)(i := Some a),
                pcbs := (pcbs w)(p := Some \<lparr>callback_arg = Some a, recv_cb = True,
                                           sent_cb = True, err_cb = True\<rparr>)\<rparr>)"
    using i by (simp add: webserver_accept_def make_timeout_time_ms_def TCP_TIMEOUT_MS_def)
  with fr show "\<exists>i\<in>set slot_indices. active_connections w i = None \<and>
         webserver_accept ERR_OK (Some p) (Some a) now cerr w
           = (ERR_OK,
              w\<lparr>heap := (heap w)(a := Some
                     \<lparr>pcb = Some p, timeout = now + 10000 * 1000,
                      response_sent = False, remaining_data = None, remaining_len = 0\<rparr>),
                active_connections := (active_connections w)(i := Some a),
                pcbs := (pcbs w)(p := Some \<lparr>callback_arg = Some a, recv_cb = True,
                                           sent_cb = True, err_cb = True\<rparr>)\<rparr>)"
    by blast
qed

text \<open>The amended C7 at a full pool and at an empty pool.\<close>

theorem accept_refuses_when_full_else_reserves_witness:
  "map (active_connections full_world) slot_indices = [Some 1, Some 2, Some 3, Some 4]
   \<and> webserver_accept ERR_OK (Some 20) None 0 ERR_OK full_world
       = (ERR_MEM, full_world\<lparr>pcbs := tcp_close ERR_OK 20 (pcbs full_world)\<rparr>)
   \<and> (\<exists>i\<in>set slot_indices. active_connections closed_world i = None)
   \<and> (\<exists>i\<in>set slot_indices. active_connections closed_world i = None \<and>
         webserver_accept ERR_OK (Some 20) (Some 1) 0 ERR_OK closed_world
           = (ERR_OK,
              closed_world\<lparr>heap := (heap closed_world)(1 := Some
                     \<lparr>pcb = Some 20, timeout = 0 + 10000 * 1000,
                      response_sent = False, remaining_data = None, remaining_len = 0\<rparr>),
                active_connections := (active_connections closed_world)(i := Some 1),
                pcbs := (pcbs closed_world)(20 := Some \<lparr>callback_arg = Some 1, recv_cb = True,
                                           sent_cb = True, err_cb = True\<rparr>)\<rparr>))"
proof -
  have full: "\<forall>i\<in>set slot_indices. active_connections full_world i \<noteq> None"
    by (simp add: full_world_def)
  have free: "\<exists>i\<in>set slot_indices. active_connections closed_world i = None"
    by (auto simp: closed_world_def slot_indices_def)
  have slots: "map (active_connections full_world) slot_indices = [Some 1, Some 2, Some 3, Some 4]"
    by (simp add: full_world_def slot_indices_def)
  from full free slots
    accept_refuses_when_full_else_reserves
      [where w = full_world and p = 20 and alloc = None and now = 0 and cerr = ERR_OK]
    accept_refuses_when_full_else_reserves
      [where w = closed_world and p = 20 and a = 1 and now = 0 and cerr = ERR_OK]
  show ?thesis by blast
qed

subsection \<open>Configuration update\<close>


lemma cfg_field_invalid:
  "cfg_field fmt c key val = (c', False, fname) \<Longrightarrow> c' = c"
  by (auto simp: cfg_field_def split: if_splits)



lemma cfg_pair_cases:
  \<open>fst (cfg_pair lc p sv st) = st
   \<or> (\<exists>e. fst (cfg_pair lc p sv st) = add_error st e)
   \<or> (\<exists>k v val c' fname.
         sscanf_f lc v = Some val
         \<and> cfg_field (fmt_f1 lc) (config st) k val = (c', True, fname)
         \<and> fst (cfg_pair lc p sv st) =
             add_update (st\<lparr>config := c'\<rparr>)
               (snprintf 64 (''{"field":"'' @ k @ ''","value":'' @ fmt_f1 lc val @ ''}'')))\<close>
proof -
  obtain key sv1 where k: "strtok (Some p) ''='' sv = (key, sv1)" by (cases "strtok (Some p) ''='' sv")
  obtain val sv2 where v: "strtok None ''='' sv1 = (val, sv2)" by (cases "strtok None ''='' sv1")
  show ?thesis
  proof (cases key)
    case None
    then show ?thesis using k v by (simp add: cfg_pair_def)
  next
    case (Some kk)
    note kk = this
    show ?thesis
    proof (cases val)
      case None
      then show ?thesis using k v kk by (simp add: cfg_pair_def)
    next
      case (Some vv)
      note vv = this
      show ?thesis
      proof (cases "vv = []")
        case True
        then show ?thesis using k v kk vv by (simp add: cfg_pair_def)
      next
        case False
        note ne = this
        show ?thesis
        proof (cases "sscanf_f lc vv")
          case None
          then have "\<exists>e. fst (cfg_pair lc p sv st) = add_error st e"
            using k v kk vv ne by (simp add: cfg_pair_def) (rule exI, rule refl)
          then show ?thesis by blast
        next
          case (Some x)
          note x = this
          obtain c' valid fname where f: "cfg_field (fmt_f1 lc) (config st) kk x = (c', valid, fname)"
            by (cases "cfg_field (fmt_f1 lc) (config st) kk x")
          show ?thesis
          proof (cases valid)
            case True
            then have \<open>fst (cfg_pair lc p sv st) =
                add_update (st\<lparr>config := c'\<rparr>)
                  (snprintf 64 (''{"field":"'' @ kk @ ''","value":'' @ fmt_f1 lc x @ ''}''))\<close>
              using k v kk vv ne x f by (simp add: cfg_pair_def)
            moreover from f True
            have "cfg_field (fmt_f1 lc) (config st) kk x = (c', True, fname)" by simp
            ultimately show ?thesis using x by blast
          next
            case False
            with f have "c' = config st" by (simp add: cfg_field_invalid)
            then have "\<exists>e. fst (cfg_pair lc p sv st) = add_error st e"
              using k v kk vv ne x f False by (simp add: cfg_pair_def) (rule exI, rule refl)
            then show ?thesis by blast
          qed
        qed
      qed
    qed
  qed
qed


lemma cfg_pair_unchanged:
  assumes "\<not> updated (fst (cfg_pair lc p sv st))"
  shows "config (fst (cfg_pair lc p sv st)) = config st \<and> \<not> updated st"
proof -
  from cfg_pair_cases [of lc p sv st] consider
    (skip) "fst (cfg_pair lc p sv st) = st"
    | (err) e where "fst (cfg_pair lc p sv st) = add_error st e"
    | (upd) c' e where "fst (cfg_pair lc p sv st) = add_update (st\<lparr>config := c'\<rparr>) e"
    by blast
  then show ?thesis
  proof cases
    case skip
    then show ?thesis using assms by simp
  next
    case err
    then show ?thesis using assms by (simp add: add_error_def)
  next
    case upd
    then show ?thesis using assms by (simp add: add_update_def)
  qed
qed

lemma cfg_loop_None [simp]: "cfg_loop lc None sv st = st"
  by (simp add: cfg_loop.simps)

lemma cfg_loop_Some:
  "cfg_loop lc (Some p) sv st =
     (case cfg_pair lc p sv st of (st', pair', sv') \<Rightarrow> cfg_loop lc pair' sv' st')"
  by (subst cfg_loop.simps) simp


lemma cfg_loop_unchanged:
  "\<not> updated (cfg_loop lc pair sv st) \<Longrightarrow>
     config (cfg_loop lc pair sv st) = config st \<and> \<not> updated st"
proof (induction lc pair sv st rule: cfg_loop.induct)
  case (1 lc pair saved st)
  show ?case
  proof (cases pair)
    case None
    then show ?thesis using "1.prems" by simp
  next
    case (Some p)
    obtain st' pair' sv' where step: "cfg_pair lc p saved st = (st', pair', sv')"
      by (cases "cfg_pair lc p saved st") auto
    have eq: "cfg_loop lc pair saved st = cfg_loop lc pair' sv' st'"
      using Some step by (simp add: cfg_loop_Some)
    then have "\<not> updated (cfg_loop lc pair' sv' st')" using "1.prems" by simp
    then have a: "config (cfg_loop lc pair' sv' st') = config st' \<and> \<not> updated st'"
      using "1.IH" [OF Some step [symmetric] refl] by simp
    then have "\<not> updated (fst (cfg_pair lc p saved st))" using step by simp
    then have "config (fst (cfg_pair lc p saved st)) = config st \<and> \<not> updated st"
      by (rule cfg_pair_unchanged)
    then show ?thesis using a eq step by simp
  qed
qed


lemma cfg_update_unchanged:
  assumes "\<not> updated (cfg_update lc c body)"
  shows "config (cfg_update lc c body) = c"
proof -
  obtain pair sv where t: "strtok (Some body) ''&'' [] = (pair, sv)"
    by (cases "strtok (Some body) ''&'' []")
  let ?st0 = "\<lparr>config = c, updated = False, updates = ''['', errors = ''['',
               first_update = True, first_error = True\<rparr>"
  from assms t have "\<not> updated (cfg_loop lc pair sv ?st0)"
    by (simp add: cfg_update_def Let_def)
  then have "config (cfg_loop lc pair sv ?st0) = config ?st0"
    using cfg_loop_unchanged by blast
  then show ?thesis using t by (simp add: cfg_update_def Let_def)
qed





text \<open>
  The configuration after the loop is the one before it with a list of accepted fields
  applied in turn, and the list of updates reports that list.
\<close>

lemma field_names_cases:
  assumes "key \<in> set field_names"
  obtains "key = ''temp_min''" | "key = ''temp_max''" | "key = ''hum_min''" | "key = ''hum_max''"
    | "key = ''press_min''" | "key = ''press_max''" | "key = ''temp_offset''"
    | "key = ''hum_offset''" | "key = ''press_offset''"
  using assms unfolding field_names_def by fastforce




lemma cfg_field_applies:
  assumes "key \<in> set field_names" and "within_range key val" and "cross_ok c key val"
  shows "cfg_field fmt c key val = (set_field key val c, True, snprintf 32 key)"
  using assms(1)
proof (cases rule: field_names_cases)
qed (use assms(2,3) in \<open>simp_all add: cfg_field_def set_field_def within_range_def
      field_range_def cross_ok_def fge_def fgt_def\<close>)















text \<open>
  A rejected field does not end the loop: a pair chained after it with \<^verbatim>\<open>=\<close> is still
  applied.  A pair after \<^verbatim>\<open>&\<close> is not looked at, whether the first field was applied
  (\<open>cfg_update_second_pair_ignored\<close> below) or rejected.
\<close>

lemma rejected_field_then_chained_field:
  "config (cfg_update toy_libc default_config ''temp_min=35=hum_min=10'')
   = default_config\<lparr>hum_min := Fin 10\<rparr>"
  by (simp add: cfg_update_def cfg_loop_Some cfg_pair_def strtok_def toy_libc_def cfg_field_def
      default_config_def fge_def fgt_def add_update_def add_error_def strncat_def snprintf_def)

lemma rejected_field_then_ampersand_field:
  "config (cfg_update toy_libc default_config ''temp_min=35&hum_min=10'') = default_config"
  by (simp add: cfg_update_def cfg_loop_Some cfg_pair_def strtok_def toy_libc_def cfg_field_def
      default_config_def fge_def fgt_def add_update_def add_error_def strncat_def snprintf_def)

text \<open>
  The pair loop and \<^verbatim>\<open>&\<close>: after the two inner \<^verbatim>\<open>strtok\<close> calls the scan for the next
  pair continues inside the current pair, so a second pair after \<^verbatim>\<open>&\<close> is never
  looked at, while further pairs chained with \<^verbatim>\<open>=\<close> are.
\<close>

lemma cfg_update_second_pair_ignored:
  \<open>cfg_update toy_libc default_config ''temp_min=10&temp_max=35''
   = \<lparr>config = default_config\<lparr>temp_min := Fin 10\<rparr>, updated = True,
       updates = ''[{"field":"temp_min","value":0.0}]'', errors = ''[]'',
       first_update = False, first_error = True\<rparr>\<close>
  by (simp add: cfg_update_def cfg_loop_Some cfg_pair_def strtok_def toy_libc_def cfg_field_def
      default_config_def fge_def fgt_def add_update_def strncat_def snprintf_def)

lemma cfg_update_equals_chain:
  \<open>cfg_update toy_libc default_config ''temp_min=10=temp_max=35''
   = \<lparr>config = default_config\<lparr>temp_min := Fin 10, temp_max := Fin 35\<rparr>, updated = True,
       updates = ''[{"field":"temp_min","value":0.0},{"field":"temp_max","value":0.0}]'',
       errors = ''[]'', first_update = False, first_error = True\<rparr>\<close>
  by (simp add: cfg_update_def cfg_loop_Some cfg_pair_def strtok_def toy_libc_def cfg_field_def
      default_config_def fge_def fgt_def add_update_def strncat_def snprintf_def)

subsection \<open>The response to a configuration request\<close>


lemma status_line_400:
  "status_line (http_header ''400 Bad Request'' ctype clen) = ''HTTP/1.1 400 Bad Request''"
  by (simp add: status_line_def http_header_def snprintf_def CRLF_def)

lemma status_line_500:
  "status_line (http_header ''500 Internal Server Error'' ctype clen)
     = ''HTTP/1.1 500 Internal Server Error''"
  by (simp add: status_line_def http_header_def snprintf_def CRLF_def)

lemma cfg_response_status:
  "reports_status ''success'' (cfg_response st) = updated st"
  "reports_status ''error'' (cfg_response st) = (\<not> updated st)"
  by (simp_all add: reports_status_def cfg_response_def snprintf_def)

lemma cfg_busy_response_status:
  "reports_status ''error'' cfg_busy_response" "\<not> reports_status ''success'' cfg_busy_response"
  by (simp_all add: reports_status_def cfg_busy_response_def snprintf_def)

lemma literal_status:
  \<open>reports_status ''error'' ''{"status":"error","message":"Corpo ausente"}''\<close>
  \<open>\<not> reports_status ''success'' ''{"status":"error","message":"Corpo ausente"}''\<close>
  \<open>reports_status ''error'' ''{"status":"error","message":"Erro interno"}''\<close>
  \<open>\<not> reports_status ''success'' ''{"status":"error","message":"Erro interno"}''\<close>
  by (simp_all add: reports_status_def)








lemma post_cfg_mutex_timeout:
  "post_cfg lc strdup_ok False c req = (c', upd, header, body) \<Longrightarrow> \<not> upd"
  by (auto simp: post_cfg_def split: option.splits if_splits)


text \<open>
  C10 as stated (a request in which no field is applied is answered with status "error"
  and HTTP 400) fails when \<^verbatim>\<open>strdup\<close> cannot copy the body: nothing is applied, and the
  status line is 500.
\<close>

theorem post_without_memory_answers_500:
  \<open>handle_http_request toy_libc toy_page False True hot_reading default_config post_temp_min
     = (default_config, http_header ''500 Internal Server Error'' ''application/json'' ''48'',
        Some ''{"status":"error","message":"Erro interno"}'')
   \<and> status_line (http_header ''500 Internal Server Error'' ''application/json'' ''48'')
       = ''HTTP/1.1 500 Internal Server Error''\<close>
  by (simp add: handle_http_request_def post_cfg_def post_temp_min_def CRLF_def status_line_500)

text \<open>
  C10, amended: in a request handled by the \<^verbatim>\<open>POST /cfg\<close> branch in which no field is
  applied (in particular whenever the configuration mutex is not obtained) the
  configuration is exactly as before, the body reports the status "error", and the
  status line is 400, except that it is 500 when the body is present and cannot be copied.
\<close>

theorem unapplied_post_changes_nothing:
  assumes "post_cfg lc strdup_ok mutex_ok c req = (c', upd, header, body)"
  shows "(\<not> mutex_ok \<longrightarrow> \<not> upd)
         \<and> (\<not> upd \<longrightarrow>
              c' = c
              \<and> (\<exists>b. body = Some b \<and> reports_status ''error'' b)
              \<and> status_line header =
                  (if strstr req (CRLF @ CRLF) \<noteq> None \<and> \<not> strdup_ok
                   then ''HTTP/1.1 500 Internal Server Error''
                   else ''HTTP/1.1 400 Bad Request''))"
proof (intro conjI impI)
  assume "\<not> mutex_ok"
  with assms show "\<not> upd"
    using post_cfg_mutex_timeout [of lc strdup_ok c req c' upd header body] by simp
next
  assume n: "\<not> upd"
  show "c' = c"
  proof (cases "strstr req (CRLF @ CRLF)")
    case None
    with assms show ?thesis by (simp add: post_cfg_def)
  next
    case (Some sep)
    show ?thesis
    proof (cases "strdup_ok \<and> mutex_ok")
      case True
      with assms Some have "upd = updated (cfg_update lc c (drop 4 sep))"
        "c' = config (cfg_update lc c (drop 4 sep))"
        by (simp_all add: post_cfg_def Let_def)
      with n show ?thesis by (simp add: cfg_update_unchanged)
    next
      case False
      with assms Some show ?thesis by (auto simp: post_cfg_def split: if_splits)
    qed
  qed
next
  assume n: "\<not> upd"
  show "\<exists>b. body = Some b \<and> reports_status ''error'' b"
    using assms n
    by (auto simp: post_cfg_def Let_def cfg_response_status cfg_busy_response_status
        literal_status split: option.splits if_splits)
next
  assume n: "\<not> upd"
  show "status_line header =
          (if strstr req (CRLF @ CRLF) \<noteq> None \<and> \<not> strdup_ok
           then ''HTTP/1.1 500 Internal Server Error''
           else ''HTTP/1.1 400 Bad Request'')"
    using assms n
    by (auto simp: post_cfg_def Let_def status_line_400 status_line_500
        split: option.splits if_splits)
qed

text \<open>The amended C10 at a request whose mutex acquisition times out.\<close>

theorem unapplied_post_changes_nothing_witness:
  \<open>post_cfg toy_libc True False default_config post_temp_min
     = (default_config, False,
        http_header ''400 Bad Request'' ''application/json'' (fmt_zu (length cfg_busy_response)),
        Some cfg_busy_response)
   \<and> reports_status ''error'' cfg_busy_response
   \<and> status_line (http_header ''400 Bad Request'' ''application/json''
                     (fmt_zu (length cfg_busy_response)))
       = ''HTTP/1.1 400 Bad Request''\<close>
proof -
  have h: "post_cfg toy_libc True False default_config post_temp_min
     = (default_config, False,
        http_header ''400 Bad Request'' ''application/json'' (fmt_zu (length cfg_busy_response)),
        Some cfg_busy_response)"
    by (simp add: post_cfg_def post_temp_min_def CRLF_def)
  note t = unapplied_post_changes_nothing [OF h]
  from t have a: "reports_status ''error'' cfg_busy_response" by simp
  from t have b: "status_line (http_header ''400 Bad Request'' ''application/json''
                     (fmt_zu (length cfg_busy_response))) = ''HTTP/1.1 400 Bad Request''"
    by simp
  from h a b show ?thesis by (intro conjI)
qed
















text \<open>
  The entry for an unknown field name does not fit \<^verbatim>\<open>err_buf[64]\<close> either: it is cut
  after 63 bytes, before the value, the closing quote and the brace.
\<close>

lemma unknown_field_entry_is_cut:
  \<open>errors (cfg_update toy_libc default_config ''foo=10'')
     = ''[{"field":"foo (desconhecido)","error":"Valor fora do intervalo:]''\<close>
  by (simp add: cfg_update_def cfg_loop_Some cfg_pair_def strtok_def toy_libc_def cfg_field_def
      default_config_def fge_def fgt_def add_error_def strncat_def snprintf_def)

subsection \<open>Sending a response in chunks\<close>

lemma send_first_chunk:
  assumes "heap w s = Some cs" and "body \<noteq> []"
  shows "send_http_response all_ok p header (Some body) (Some s) w =
           Some (w\<lparr>wire := wire w @ [(p, header), (p, take TCP_CHUNK_SIZE body)],
                   heap := (heap w)(s := Some (cs\<lparr>remaining_data := Some (drop TCP_CHUNK_SIZE body),
                                                  remaining_len := length body - TCP_CHUNK_SIZE,
                                                  response_sent := True\<rparr>))\<rparr>)"
  using assms
  by (simp add: send_http_response_def all_ok_def tcp_write_def Let_def send_output_def
      set_state_def)

lemma sent_next_chunk:
  assumes "heap w s = Some cs" and "remaining_data cs = Some r"
    and "remaining_len cs = length r" and "r \<noteq> []"
  shows "webserver_sent all_ok (Some s) p w =
           Some (w\<lparr>wire := wire w @ [(p, take TCP_CHUNK_SIZE r)],
                   heap := (heap w)(s := Some (cs\<lparr>remaining_data := Some (drop TCP_CHUNK_SIZE r),
                                                  remaining_len := length r - TCP_CHUNK_SIZE\<rparr>))\<rparr>)"
  using assms
  by (simp add: webserver_sent_def all_ok_def tcp_write_def Let_def set_state_def)

lemma sent_when_done:
  assumes "heap w s = Some cs" and "remaining_len cs = 0"
  shows "webserver_sent e (Some s) p w = close_connection (e_close e) (Some s) w"
  using assms by (simp add: webserver_sent_def)

lemma sent_events_released:
  "pcbs w p = None \<Longrightarrow> sent_events evs p w = Some w"
  by (induction evs) (simp_all add: lwip_sent_def)


lemma drain:
  assumes "heap w s = Some cs" and "pcb cs = Some p"
    and "pcbs w p = Some b" and "callback_arg b = Some s" and "sent_cb b"
    and "remaining_data cs = Some r" and "remaining_len cs = length r"
    and "length r + TCP_CHUNK_SIZE \<le> TCP_CHUNK_SIZE * n"
  shows "\<exists>w' chunks.
           sent_events (replicate n all_ok) p w = Some w'
           \<and> wire w' = wire w @ map (Pair p) chunks
           \<and> concat chunks = r
           \<and> (\<forall>c\<in>set chunks. c \<noteq> [] \<and> length c \<le> TCP_CHUNK_SIZE)
           \<and> heap w' = (heap w)(s := None)
           \<and> pcbs w' = (pcbs w)(p := None)
           \<and> active_connections w' = release_slot s slot_indices (active_connections w)"
  using assms
proof (induction n arbitrary: w cs r)
  case 0
  then show ?case by (simp add: TCP_CHUNK_SIZE_def)
next
  case (Suc n)
  have ev: "lwip_sent all_ok p w = webserver_sent all_ok (Some s) p w"
    using Suc.prems(3,4,5) by (simp add: lwip_sent_def)
  show ?case
  proof (cases "r = []")
    case True
    then have len0: "remaining_len cs = 0" using Suc.prems(7) by simp
    define w1 where "w1 = w\<lparr>active_connections := release_slot s slot_indices (active_connections w),
                            pcbs := tcp_close ERR_OK p (tcp_clear_callbacks p (pcbs w)),
                            heap := (heap w)(s := None)\<rparr>"
    have cl: "webserver_sent all_ok (Some s) p w = Some w1"
      using Suc.prems(1,2) len0
      by (simp add: sent_when_done close_connection_def w1_def all_ok_def)
    have gone: "pcbs w1 p = None" by (simp add: w1_def tcp_close_def)
    have pc: "pcbs w1 = (pcbs w)(p := None)"
      using Suc.prems(3) by (simp add: w1_def tcp_close_def tcp_clear_callbacks_def)
    have "sent_events (replicate (Suc n) all_ok) p w = Some w1"
      using ev cl gone by (simp add: sent_events_released)
    moreover have "wire w1 = wire w @ map (Pair p) []" by (simp add: w1_def)
    moreover have "concat ([] :: string list) = r" using True by simp
    moreover have "heap w1 = (heap w)(s := None)" by (simp add: w1_def)
    moreover have "active_connections w1 = release_slot s slot_indices (active_connections w)"
      by (simp add: w1_def)
    ultimately show ?thesis using pc by (intro exI [of _ w1] exI [of _ "[]"]) simp
  next
    case False
    define cs1 where "cs1 = cs\<lparr>remaining_data := Some (drop TCP_CHUNK_SIZE r),
                                remaining_len := length r - TCP_CHUNK_SIZE\<rparr>"
    define w1 where "w1 = w\<lparr>wire := wire w @ [(p, take TCP_CHUNK_SIZE r)],
                            heap := (heap w)(s := Some cs1)\<rparr>"
    have step: "webserver_sent all_ok (Some s) p w = Some w1"
      using sent_next_chunk [OF Suc.prems(1) Suc.prems(6) Suc.prems(7) False]
      by (simp add: w1_def cs1_def)
    have l: "length r \<le> 512 * n" "0 < length r"
      using Suc.prems(8) False by (simp_all add: TCP_CHUNK_SIZE_def)
    then have "length r - 512 + 512 \<le> 512 * n" by arith
    then have rest: "length (drop TCP_CHUNK_SIZE r) + TCP_CHUNK_SIZE \<le> TCP_CHUNK_SIZE * n"
      by (simp add: TCP_CHUNK_SIZE_def)
    have a: "heap w1 s = Some cs1" by (simp add: w1_def)
    have b1: "pcb cs1 = Some p" using Suc.prems(2) by (simp add: cs1_def)
    have c: "pcbs w1 p = Some b" using Suc.prems(3) by (simp add: w1_def)
    have d: "remaining_data cs1 = Some (drop TCP_CHUNK_SIZE r)" by (simp add: cs1_def)
    have e: "remaining_len cs1 = length (drop TCP_CHUNK_SIZE r)" by (simp add: cs1_def)
    from Suc.IH [OF a b1 c Suc.prems(4) Suc.prems(5) d e rest]
    obtain w' chunks where ih:
      "sent_events (replicate n all_ok) p w1 = Some w'"
      "wire w' = wire w1 @ map (Pair p) chunks"
      "concat chunks = drop TCP_CHUNK_SIZE r"
      "\<forall>c\<in>set chunks. c \<noteq> [] \<and> length c \<le> TCP_CHUNK_SIZE"
      "heap w' = (heap w1)(s := None)"
      "pcbs w' = (pcbs w1)(p := None)"
      "active_connections w' = release_slot s slot_indices (active_connections w1)"
      by blast
    have 1: "sent_events (replicate (Suc n) all_ok) p w = Some w'"
      using ev step ih(1) by simp
    have 2: "wire w' = wire w @ map (Pair p) (take TCP_CHUNK_SIZE r # chunks)"
      using ih(2) by (simp add: w1_def)
    have 3: "concat (take TCP_CHUNK_SIZE r # chunks) = r" using ih(3) by simp
    have 4: "\<forall>c\<in>set (take TCP_CHUNK_SIZE r # chunks). c \<noteq> [] \<and> length c \<le> TCP_CHUNK_SIZE"
      using ih(4) False by (simp add: TCP_CHUNK_SIZE_def)
    have 5: "heap w' = (heap w)(s := None)" using ih(5) by (simp add: w1_def)
    have 6: "pcbs w' = (pcbs w)(p := None)" using ih(6) by (simp add: w1_def)
    have 7: "active_connections w' = release_slot s slot_indices (active_connections w)"
      using ih(7) by (simp add: w1_def)
    from 1 2 3 4 5 6 7 show ?thesis by blast
  qed
qed


lemma send_refused_tears_down:
  "e_header e \<noteq> ERR_OK \<Longrightarrow>
     send_http_response e p header body state w = close_connection (e_close e) state w"
  by (simp add: send_http_response_def)

lemma sent_refused_tears_down:
  assumes "heap w s = Some cs" and "remaining_data cs = Some r" and "0 < remaining_len cs"
    and "e_chunk e \<noteq> ERR_OK"
  shows "webserver_sent e (Some s) p w = close_connection (e_close e) (Some s) w"
  using assms by (simp add: webserver_sent_def Let_def)

text \<open>
  C1 as stated (for every response with a non-empty body the header and the chunks are
  handed over and concatenate to the body) fails when the transport refuses a write:
  with the header refused, nothing is handed over and the connection is torn down.
\<close>

theorem refused_header_sends_nothing:
  "send_http_response (all_ok\<lparr>e_header := ERR_MEM\<rparr>) 7 ''HTTP/1.1 200 OK''
     (Some two_chunk_body) (Some 1) idle_world = Some closed_world
   \<and> wire closed_world = []"
  by (auto simp: send_http_response_def all_ok_def ERR_MEM_def ERR_OK_def close_connection_def
      idle_world_def idle_conn_def closed_world_def slot_indices_def tcp_close_def
      tcp_clear_callbacks_def fun_eq_iff)

text \<open>
  C1, amended: for a response with a non-empty body on a live connection, provided the
  transport accepts what it is handed, the initial send hands over the header and the
  first \<open>TCP_CHUNK_SIZE\<close> bytes of the body (all of it when shorter) and keeps the rest as
  cursor and length in the connection state.  A send-complete notification that finds a
  rest hands over its next \<open>TCP_CHUNK_SIZE\<close> bytes and advances the cursor; one that
  finds the length zero tears the connection down.  Once enough notifications have
  arrived, the chunks handed over are non-empty, at most \<open>TCP_CHUNK_SIZE\<close> long,
  concatenate to the body, and the connection state, the handle and the slot are released.
\<close>

theorem response_body_streamed_in_chunks:
  assumes "heap w s = Some cs" and "pcb cs = Some p"
    and "pcbs w p = Some b" and "callback_arg b = Some s" and "sent_cb b"
    and "body \<noteq> []" and "length body \<le> TCP_CHUNK_SIZE * n"
  shows "(\<exists>w1 w2 chunks.
           send_http_response all_ok p header (Some body) (Some s) w = Some w1
           \<and> wire w1 = wire w @ [(p, header), (p, take TCP_CHUNK_SIZE body)]
           \<and> heap w1 s = Some (cs\<lparr>remaining_data := Some (drop TCP_CHUNK_SIZE body),
                                    remaining_len := length body - TCP_CHUNK_SIZE,
                                    response_sent := True\<rparr>)
           \<and> sent_events (replicate n all_ok) p w1 = Some w2
           \<and> wire w2 = wire w @ (p, header) # map (Pair p) chunks
           \<and> concat chunks = body
           \<and> (\<forall>c\<in>set chunks. c \<noteq> [] \<and> length c \<le> TCP_CHUNK_SIZE)
           \<and> heap w2 = (heap w)(s := None)
           \<and> pcbs w2 = (pcbs w)(p := None)
           \<and> active_connections w2 = release_slot s slot_indices (active_connections w))
         \<and> (\<forall>w0 c0 r.
               heap w0 s = Some c0 \<and> remaining_data c0 = Some r \<and> remaining_len c0 = length r
               \<and> r \<noteq> [] \<longrightarrow>
               webserver_sent all_ok (Some s) p w0 =
                 Some (w0\<lparr>wire := wire w0 @ [(p, take TCP_CHUNK_SIZE r)],
                          heap := (heap w0)(s := Some (c0\<lparr>remaining_data := Some (drop TCP_CHUNK_SIZE r),
                                                          remaining_len := length r - TCP_CHUNK_SIZE\<rparr>))\<rparr>))
         \<and> (\<forall>w0 c0.
               heap w0 s = Some c0 \<and> remaining_len c0 = 0 \<longrightarrow>
               webserver_sent all_ok (Some s) p w0 = close_connection ERR_OK (Some s) w0)"
proof -
  define cs1 where "cs1 = cs\<lparr>remaining_data := Some (drop TCP_CHUNK_SIZE body),
                              remaining_len := length body - TCP_CHUNK_SIZE,
                              response_sent := True\<rparr>"
  define w1 where "w1 = w\<lparr>wire := wire w @ [(p, header), (p, take TCP_CHUNK_SIZE body)],
                          heap := (heap w)(s := Some cs1)\<rparr>"
  have first: "send_http_response all_ok p header (Some body) (Some s) w = Some w1"
    using send_first_chunk [OF assms(1) assms(6)] by (simp add: w1_def cs1_def)
  have a: "heap w1 s = Some cs1" by (simp add: w1_def)
  have b1: "pcb cs1 = Some p" using assms(2) by (simp add: cs1_def)
  have c: "pcbs w1 p = Some b" using assms(3) by (simp add: w1_def)
  have d: "remaining_data cs1 = Some (drop TCP_CHUNK_SIZE body)" by (simp add: cs1_def)
  have e: "remaining_len cs1 = length (drop TCP_CHUNK_SIZE body)" by (simp add: cs1_def)
  have l: "length body \<le> 512 * n" "0 < length body"
    using assms(6,7) by (simp_all add: TCP_CHUNK_SIZE_def)
  then have "length body - 512 + 512 \<le> 512 * n" by arith
  then have f: "length (drop TCP_CHUNK_SIZE body) + TCP_CHUNK_SIZE \<le> TCP_CHUNK_SIZE * n"
    by (simp add: TCP_CHUNK_SIZE_def)
  from drain [OF a b1 c assms(4) assms(5) d e f]
  obtain w2 rest where r:
    "sent_events (replicate n all_ok) p w1 = Some w2"
    "wire w2 = wire w1 @ map (Pair p) rest"
    "concat rest = drop TCP_CHUNK_SIZE body"
    "\<forall>c\<in>set rest. c \<noteq> [] \<and> length c \<le> TCP_CHUNK_SIZE"
    "heap w2 = (heap w1)(s := None)"
    "pcbs w2 = (pcbs w1)(p := None)"
    "active_connections w2 = release_slot s slot_indices (active_connections w1)"
    by blast
  have 1: "wire w1 = wire w @ [(p, header), (p, take TCP_CHUNK_SIZE body)]" by (simp add: w1_def)
  have 2: "wire w2 = wire w @ (p, header) # map (Pair p) (take TCP_CHUNK_SIZE body # rest)"
    using r(2) by (simp add: w1_def)
  have 3: "concat (take TCP_CHUNK_SIZE body # rest) = body" using r(3) by simp
  have 4: "\<forall>c\<in>set (take TCP_CHUNK_SIZE body # rest). c \<noteq> [] \<and> length c \<le> TCP_CHUNK_SIZE"
    using r(4) assms(6) by (simp add: TCP_CHUNK_SIZE_def)
  have 5: "heap w2 = (heap w)(s := None)" using r(5) by (simp add: w1_def)
  have 6: "pcbs w2 = (pcbs w)(p := None)" using r(6) by (simp add: w1_def)
  have 7: "active_connections w2 = release_slot s slot_indices (active_connections w)"
    using r(7) by (simp add: w1_def)
  have 8: "heap w1 s = Some (cs\<lparr>remaining_data := Some (drop TCP_CHUNK_SIZE body),
                                    remaining_len := length body - TCP_CHUNK_SIZE,
                                    response_sent := True\<rparr>)"
    using a by (simp add: cs1_def)
  have run: "\<exists>w1 w2 chunks.
           send_http_response all_ok p header (Some body) (Some s) w = Some w1
           \<and> wire w1 = wire w @ [(p, header), (p, take TCP_CHUNK_SIZE body)]
           \<and> heap w1 s = Some (cs\<lparr>remaining_data := Some (drop TCP_CHUNK_SIZE body),
                                    remaining_len := length body - TCP_CHUNK_SIZE,
                                    response_sent := True\<rparr>)
           \<and> sent_events (replicate n all_ok) p w1 = Some w2
           \<and> wire w2 = wire w @ (p, header) # map (Pair p) chunks
           \<and> concat chunks = body
           \<and> (\<forall>c\<in>set chunks. c \<noteq> [] \<and> length c \<le> TCP_CHUNK_SIZE)
           \<and> heap w2 = (heap w)(s := None)
           \<and> pcbs w2 = (pcbs w)(p := None)
           \<and> active_connections w2 = release_slot s slot_indices (active_connections w)"
    by (rule exI [of _ w1], rule exI [of _ w2], rule exI [of _ "take TCP_CHUNK_SIZE body # rest"])
       (intro conjI; (rule first 1 8 r(1) 2 3 4 5 6 7))
  have next_chunk: "\<forall>w0 c0 r.
               heap w0 s = Some c0 \<and> remaining_data c0 = Some r \<and> remaining_len c0 = length r
               \<and> r \<noteq> [] \<longrightarrow>
               webserver_sent all_ok (Some s) p w0 =
                 Some (w0\<lparr>wire := wire w0 @ [(p, take TCP_CHUNK_SIZE r)],
                          heap := (heap w0)(s := Some (c0\<lparr>remaining_data := Some (drop TCP_CHUNK_SIZE r),
                                                          remaining_len := length r - TCP_CHUNK_SIZE\<rparr>))\<rparr>)"
    by (intro allI impI, elim conjE) (rule sent_next_chunk)
  have at_end: "\<forall>w0 c0.
               heap w0 s = Some c0 \<and> remaining_len c0 = 0 \<longrightarrow>
               webserver_sent all_ok (Some s) p w0 = close_connection ERR_OK (Some s) w0"
  proof (intro allI impI, elim conjE)
    fix w0 :: world and c0 :: conn_state_t
    assume "heap w0 s = Some c0" "remaining_len c0 = 0"
    then have "webserver_sent all_ok (Some s) p w0 = close_connection (e_close all_ok) (Some s) w0"
      by (rule sent_when_done)
    then show "webserver_sent all_ok (Some s) p w0 = close_connection ERR_OK (Some s) w0"
      by (simp add: all_ok_def)
  qed
  from run next_chunk at_end show ?thesis by (intro conjI)
qed


text \<open>The amended C1 at a body of two chunks on the connection of \<open>idle_world\<close>.\<close>

theorem response_body_streamed_in_chunks_witness:
  "(\<exists>w1 w2 chunks.
     send_http_response all_ok 7 ''HTTP/1.1 200 OK'' (Some two_chunk_body) (Some 1) idle_world
       = Some w1
     \<and> wire w1 = [(7, ''HTTP/1.1 200 OK''), (7, take TCP_CHUNK_SIZE two_chunk_body)]
     \<and> sent_events (replicate 2 all_ok) 7 w1 = Some w2
     \<and> wire w2 = (7, ''HTTP/1.1 200 OK'') # map (Pair 7) chunks
     \<and> concat chunks = two_chunk_body
     \<and> heap w2 = (heap idle_world)(1 := None)
     \<and> pcbs w2 = (pcbs idle_world)(7 := None))
   \<and> webserver_sent all_ok (Some 1) 7 streaming_world =
       Some (streaming_world\<lparr>wire := wire streaming_world @ [(7, take TCP_CHUNK_SIZE ''b'')],
              heap := (heap streaming_world)(1 := Some (streaming_conn\<lparr>
                        remaining_data := Some (drop TCP_CHUNK_SIZE ''b''),
                        remaining_len := length ''b'' - TCP_CHUNK_SIZE\<rparr>))\<rparr>)
   \<and> webserver_sent all_ok (Some 1) 7 idle_world = close_connection ERR_OK (Some 1) idle_world"
proof -
  have h: "heap idle_world 1 = Some idle_conn" "pcb idle_conn = Some 7"
    "pcbs idle_world 7 = Some \<lparr>callback_arg = Some 1, recv_cb = True, sent_cb = True, err_cb = True\<rparr>"
    "callback_arg \<lparr>callback_arg = Some 1, recv_cb = True, sent_cb = True, err_cb = True\<rparr> = Some 1"
    "sent_cb \<lparr>callback_arg = Some 1, recv_cb = True, sent_cb = True, err_cb = True\<rparr>"
    "two_chunk_body \<noteq> []" "length two_chunk_body \<le> TCP_CHUNK_SIZE * 2"
    by (simp_all add: idle_world_def idle_conn_def two_chunk_body_def TCP_CHUNK_SIZE_def)
  note t = response_body_streamed_in_chunks [OF h, of "''HTTP/1.1 200 OK''"]
  have g: "heap streaming_world 1 = Some streaming_conn \<and> remaining_data streaming_conn = Some ''b''
      \<and> remaining_len streaming_conn = length ''b'' \<and> ''b'' \<noteq> []"
    by (simp add: streaming_world_def streaming_conn_def)
  note nxt = t [THEN conjunct2, THEN conjunct1, THEN spec, THEN spec, THEN spec, THEN mp, OF g]
  have i: "heap idle_world 1 = Some idle_conn \<and> remaining_len idle_conn = 0"
    by (simp add: idle_world_def idle_conn_def)
  note fin = t [THEN conjunct2, THEN conjunct2, THEN spec, THEN spec, THEN mp, OF i]
  from t [THEN conjunct1]
  obtain w1 w2 chunks where r:
    "send_http_response all_ok 7 ''HTTP/1.1 200 OK'' (Some two_chunk_body) (Some 1) idle_world
       = Some w1"
    "wire w1 = wire idle_world @ [(7, ''HTTP/1.1 200 OK''), (7, take TCP_CHUNK_SIZE two_chunk_body)]"
    "sent_events (replicate 2 all_ok) 7 w1 = Some w2"
    "wire w2 = wire idle_world @ (7, ''HTTP/1.1 200 OK'') # map (Pair 7) chunks"
    "concat chunks = two_chunk_body"
    "heap w2 = (heap idle_world)(1 := None)"
    "pcbs w2 = (pcbs idle_world)(7 := None)"
    by blast
  have e: "wire idle_world = []" by (simp add: idle_world_def)
  from r(2) e have 2: "wire w1 = [(7, ''HTTP/1.1 200 OK''), (7, take TCP_CHUNK_SIZE two_chunk_body)]"
    by simp
  from r(4) e have 4: "wire w2 = (7, ''HTTP/1.1 200 OK'') # map (Pair 7) chunks" by simp
  have run: "\<exists>w1 w2 chunks.
     send_http_response all_ok 7 ''HTTP/1.1 200 OK'' (Some two_chunk_body) (Some 1) idle_world
       = Some w1
     \<and> wire w1 = [(7, ''HTTP/1.1 200 OK''), (7, take TCP_CHUNK_SIZE two_chunk_body)]
     \<and> sent_events (replicate 2 all_ok) 7 w1 = Some w2
     \<and> wire w2 = (7, ''HTTP/1.1 200 OK'') # map (Pair 7) chunks
     \<and> concat chunks = two_chunk_body
     \<and> heap w2 = (heap idle_world)(1 := None)
     \<and> pcbs w2 = (pcbs idle_world)(7 := None)"
    by (rule exI [of _ w1], rule exI [of _ w2], rule exI [of _ chunks])
       (intro conjI; (rule r(1) 2 r(3) 4 r(5) r(6) r(7)))
  from run nxt fin show ?thesis by (intro conjI)
qed


lemma two_chunks_on_the_wire:
  "send_http_response all_ok 7 ''H'' (Some two_chunk_body) (Some 1) idle_world = Some w1 \<Longrightarrow>
   sent_events (replicate 2 all_ok) 7 w1 = Some w2 \<Longrightarrow>
   wire w2 = [(7, ''H''), (7, replicate 512 (CHR ''a'')), (7, ''b'')] \<and> heap w2 1 = None"
  by (auto simp: send_http_response_def all_ok_def tcp_write_def Let_def send_output_def
      set_state_def idle_world_def idle_conn_def two_chunk_body_def TCP_CHUNK_SIZE_def
      lwip_sent_def webserver_sent_def numeral_2_eq_2 close_connection_def
      tcp_close_def tcp_clear_callbacks_def slot_indices_def)

subsection \<open>Receive callback\<close>

lemma recv_oversize:
  "length payload > MAX_REQUEST_SIZE \<Longrightarrow>
     webserver_recv e lc html_page calloc_ok strdup_ok mutex_ok now sd arg tpcb (Some payload) (c, w)
       = map_option (Pair c) (send_http_response e tpcb too_large_response None arg w)"
  by (simp add: webserver_recv_def)

lemma recv_peer_close:
  "webserver_recv e lc html_page calloc_ok strdup_ok mutex_ok now sd arg tpcb None (c, w)
     = map_option (Pair c) (close_connection (e_close e) arg w)"
  by (simp add: webserver_recv_def)

lemma recv_refreshes_deadline:
  assumes "heap w s = Some cs" and "length payload \<le> MAX_REQUEST_SIZE" and "calloc_ok"
    and "webserver_recv all_ok lc html_page calloc_ok strdup_ok mutex_ok now sd (Some s) p
           (Some payload) (c, w) = Some (c', w')"
    and "heap w' s = Some cs'"
  shows "timeout cs' = make_timeout_time_ms now TCP_TIMEOUT_MS"
  using assms
  by (auto simp: webserver_recv_def Let_def send_http_response_def all_ok_def tcp_write_def
      send_output_def set_state_def split: prod.splits option.splits if_splits)

text \<open>
  The entry that reports a limit rejected against the opposite limit does not fit
  \<^verbatim>\<open>err_buf[64]\<close>: it is cut after 63 bytes, before its closing quote and brace.
\<close>

lemma rejected_limit_entry_is_cut:
  \<open>errors (fst (cfg_pair toy_libc ''temp_min=35'' [] fresh_locals))
     = ''[{"field":"temp_min >= temp_max (0.0)","error":"Valor fora do in''\<close>
  by (simp add: cfg_pair_def strtok_def toy_libc_def cfg_field_def fresh_locals_def
      default_config_def fge_def fgt_def add_error_def strncat_def snprintf_def)

end
